theory Spec2Isabelle
  imports Main "HOL-Library.AList" "HOL-Library.Multiset"
begin

section \<open>JavaScript values used by the arrivals functions\<close>

text \<open>
  A JavaScript string is modelled by a HOL \<open>string\<close>, one \<open>char\<close> per UTF-16 code
  unit (so only units below 256 are represented; airport, country and flight codes are
  ASCII). A string built by \<open>String.fromCodePoint\<close> is modelled by the list of its code
  points, since the regional indicator symbols lie outside that range. A number is an
  \<open>int\<close> (JavaScript numbers are exact on the integers that occur here), \<open>NaN\<close> being
  \<open>None\<close> where it can arise. An absent value (\<open>undefined\<close> or \<open>null\<close>) is \<open>None\<close>.
  An exception is a value of type \<open>js_error\<close> that carries the message of the
  JavaScript error.
\<close>

datatype js_error = RangeError string | TypeError string | SyntaxError string

fun message :: "js_error \<Rightarrow> string" where
  "message (RangeError m) = m"
| "message (TypeError m) = m"
| "message (SyntaxError m) = m"

text \<open>
  A property that holds a string, \<open>null\<close>, or nothing (\<open>undefined\<close>), where the
  difference shows: \<open>JSON.stringify\<close> writes \<open>null\<close> and leaves \<open>undefined\<close> out, and a
  template literal prints the two words.
\<close>

datatype js_string = Undefined | Null | Str string

fun string_of :: "js_string \<Rightarrow> string option" where
  "string_of (Str s) = Some s"
| "string_of _ = None"

text \<open>
  A number that may be infinite: \<open>parseInt\<close> of a decimal string that is too long for a
  double is \<open>Infinity\<close> (or \<open>-Infinity\<close>).
\<close>

datatype js_number = Finite int | PosInfinity | NegInfinity

text \<open>Truthiness of an optional string: absent and the empty string are falsy.\<close>

fun truthy :: "string option \<Rightarrow> bool" where
  "truthy None = False"
| "truthy (Some s) = (s \<noteq> [])"

text \<open>\<open>a || b\<close> on optional strings with a string default.\<close>

definition or_else :: "string option \<Rightarrow> string \<Rightarrow> string" where
  "or_else a b = (case a of None \<Rightarrow> b | Some s \<Rightarrow> if s \<noteq> [] then s else b)"

text \<open>
  \<open>String.prototype.toUpperCase\<close>, on the ASCII letters; other code units are left as
  they are (which is what JavaScript does for every other ASCII unit).
\<close>

definition upper_char :: "char \<Rightarrow> char" where
  "upper_char c =
     (if (97::nat) \<le> of_char c \<and> (of_char c :: nat) \<le> 122
      then char_of ((of_char c :: nat) - 32) else c)"

definition toUpperCase :: "string \<Rightarrow> string" where
  "toUpperCase s = map upper_char s"

text \<open>A string of ASCII units, on which \<open>toUpperCase\<close> above is the one of JavaScript.\<close>

definition ascii :: "string \<Rightarrow> bool" where
  "ascii s = list_all (\<lambda>c. (of_char c :: nat) < 128) s"

text \<open>The number of a code unit.\<close>

definition code_unit :: "char \<Rightarrow> int" where
  "code_unit c = int (of_char c)"

text \<open>\<open>charCodeAt(i)\<close>: the code unit at index \<open>i\<close>, \<open>NaN\<close> (here \<open>None\<close>) out of range.\<close>

definition charCodeAt :: "string \<Rightarrow> nat \<Rightarrow> int option" where
  "charCodeAt s i = (if i < length s then Some (code_unit (s ! i)) else None)"

text \<open>
  \<open>String.fromCodePoint(n)\<close>: a one-code-point string, or a \<open>RangeError\<close> when \<open>n\<close> is
  \<open>NaN\<close> or not a code point.
\<close>

definition fromCodePoint :: "int option \<Rightarrow> js_error + int list" where
  "fromCodePoint n =
     (case n of
        None \<Rightarrow> Inl (RangeError ''Invalid code point NaN'')
      | Some k \<Rightarrow>
          if 0 \<le> k \<and> k \<le> 0x10FFFF then Inr [k]
          else Inl (RangeError ''Invalid code point''))"

text \<open>Arithmetic on a number that may be \<open>NaN\<close>: \<open>0x1F1E6 + x - 65\<close>.\<close>

definition indicator :: "int option \<Rightarrow> int option" where
  "indicator x = map_option (\<lambda>c. 0x1F1E6 + c - 65) x"

section \<open>Country flags\<close>

text \<open>
  \<^verbatim>\<open>
  function getFlagEmoji(countryCode) {
      if (!countryCode) { return ""; }
      const code = countryCode.toUpperCase();
      return String.fromCodePoint(0x1F1E6 + code.charCodeAt(0) - 65) +
             String.fromCodePoint(0x1F1E6 + code.charCodeAt(1) - 65);
  }
  \<close>
  The left operand of \<open>+\<close> is evaluated first, so its exception wins.
\<close>

definition getFlagEmoji :: "string option \<Rightarrow> js_error + int list" where
  "getFlagEmoji countryCode =
     (if \<not> truthy countryCode then Inr []
      else
        let code = toUpperCase (the countryCode) in
        (case fromCodePoint (indicator (charCodeAt code 0)) of
           Inl e \<Rightarrow> Inl e
         | Inr a \<Rightarrow>
             (case fromCodePoint (indicator (charCodeAt code 1)) of
                Inl e \<Rightarrow> Inl e
              | Inr b \<Rightarrow> Inr (a @ b))))"

section \<open>Future flights\<close>

text \<open>
  A flight of the Schiphol feed, with the fields the functions read. \<open>destination0\<close> is
  \<open>flight.route?.destinations?.[0]\<close>; \<open>cityInfo\<close> is attached by \<open>processFlightData\<close>.
\<close>

record city_info =
  ci_city :: js_string
  ci_country :: js_string
  ci_flag :: "int list"
  ci_airportName :: js_string
  ci_source :: js_string

record flight =
  scheduleDate :: "string option"
  scheduleTime :: "string option"
  destination0 :: "string option"
  cityInfo :: "city_info option"

text \<open>
  \<^verbatim>\<open>
  function isFlightInFuture(flight, currentTime) {
      if (!flight.scheduleDate || !flight.scheduleTime) return false;
      try {
          const scheduleDatetime = new Date(`${flight.scheduleDate}T${flight.scheduleTime}`);
          return scheduleDatetime >= new Date(currentTime.getTime() - 15 * 60 * 1000);
      } catch (e) { return false; }
  }
  \<close>
  The \<open>Date\<close> constructor is the platform's: \<open>parseDate\<close> gives the milliseconds of the
  date a string denotes in the process's time zone, \<open>None\<close> for an invalid date
  (\<open>NaN\<close>, for which every comparison is false). \<open>currentTime\<close> is the time value of a
  valid date.
\<close>

definition isFlightInFuture :: "(string \<Rightarrow> int option) \<Rightarrow> flight \<Rightarrow> int \<Rightarrow> bool" where
  "isFlightInFuture parseDate flight currentTime =
     (if \<not> truthy (scheduleDate flight) \<or> \<not> truthy (scheduleTime flight) then False
      else
        (case parseDate (the (scheduleDate flight) @ ''T'' @ the (scheduleTime flight)) of
           None \<Rightarrow> False
         | Some scheduleDatetime \<Rightarrow> scheduleDatetime \<ge> currentTime - 15 * 60 * 1000))"

section \<open>The multi-status arrivals function (arrivals-cdg.js)\<close>

text \<open>
  A raw flight of the aggregator feed, with the fields the handler reads. A field of the
  source such as \<open>f.flight?.iata\<close> is the field \<open>fi_iata\<close> of \<open>r_flight f\<close>;
  \<open>fi_codeshared\<close> is the truthiness of \<open>f.flight?.codeshared\<close> (the feed gives
  \<open>null\<close> or an object). \<open>ar_delay\<close> is a number of minutes, falsy when 0.
\<close>

record flight_info =
  fi_iata :: "string option"
  fi_icao :: "string option"
  fi_codeshared :: bool

record arrival_info =
  ar_scheduled :: "string option"
  ar_estimated :: "string option"
  ar_terminal :: "string option"
  ar_gate :: "string option"
  ar_delay :: "int option"

record airline_info =
  al_name :: "string option"
  al_iata :: "string option"
  al_icao :: "string option"

record departure_info =
  dp_airport :: "string option"
  dp_iata :: "string option"

record aircraft_info =
  ac_iata :: "string option"
  ac_icao :: "string option"

record raw_flight =
  r_flight :: "flight_info option"
  r_arrival :: "arrival_info option"
  r_airline :: "airline_info option"
  r_departure :: "departure_info option"
  r_aircraft :: "aircraft_info option"
  r_flight_status :: "string option"

text \<open>The record pushed to \<open>flights\<close> (lines 62 to 86).\<close>

record arrival_flight =
  flightName :: string
  scheduleDateTime :: string
  o_scheduleTime :: string
  airline_name :: string
  airline_iata :: string
  airline_icao :: string
  departure_airport :: string
  departure_iata :: string
  departure_city :: string
  aircraft_iata :: string
  aircraft_icao :: string
  arrival_terminal :: string
  arrival_gate :: string
  arrival_delay :: "int option"
  status :: string

text \<open>\<open>f.x?.y\<close>: the field \<open>y\<close> of an optional object.\<close>

definition opt_field :: "'a option \<Rightarrow> ('a \<Rightarrow> 'b option) \<Rightarrow> 'b option" where
  "opt_field obj fld = (case obj of None \<Rightarrow> None | Some x \<Rightarrow> fld x)"

text \<open>\<open>f.flight?.codeshared\<close> as a condition.\<close>

definition codeshared :: "raw_flight \<Rightarrow> bool" where
  "codeshared f = (case r_flight f of None \<Rightarrow> False | Some fi \<Rightarrow> fi_codeshared fi)"

text \<open>\<open>f.flight?.iata || f.flight?.icao || ''\<close>, the flight code of a raw flight.\<close>

definition flightCode :: "raw_flight \<Rightarrow> string" where
  "flightCode f =
     or_else (opt_field (r_flight f) fi_iata) (or_else (opt_field (r_flight f) fi_icao) [])"

text \<open>
  \<open>f.flight?.iata || f.flight?.icao || Math.random().toString()\<close>: \<open>rnd\<close> is the string
  that \<open>Math.random().toString()\<close> gives when it is drawn for this flight.
\<close>

definition flightKey :: "string \<Rightarrow> raw_flight \<Rightarrow> string" where
  "flightKey rnd f =
     or_else (opt_field (r_flight f) fi_iata) (or_else (opt_field (r_flight f) fi_icao) rnd)"

text \<open>\<open>s.slice(11, 16)\<close>.\<close>

definition slice_11_16 :: "string \<Rightarrow> string" where
  "slice_11_16 s = take 5 (drop 11 s)"

text \<open>\<open>f.arrival?.delay || null\<close>.\<close>

definition delay_or_null :: "int option \<Rightarrow> int option" where
  "delay_or_null d = (case d of None \<Rightarrow> None | Some n \<Rightarrow> if n \<noteq> 0 then Some n else None)"

definition toRecord :: "raw_flight \<Rightarrow> arrival_flight" where
  "toRecord f =
     (let arrTime = or_else (opt_field (r_arrival f) ar_scheduled)
                      (or_else (opt_field (r_arrival f) ar_estimated) [])
      in \<lparr>flightName = flightCode f,
          scheduleDateTime = arrTime,
          o_scheduleTime = (if arrTime \<noteq> [] then slice_11_16 arrTime else []),
          airline_name = or_else (opt_field (r_airline f) al_name) [],
          airline_iata = or_else (opt_field (r_airline f) al_iata) [],
          airline_icao = or_else (opt_field (r_airline f) al_icao) [],
          departure_airport = or_else (opt_field (r_departure f) dp_airport) [],
          departure_iata = or_else (opt_field (r_departure f) dp_iata) [],
          departure_city = or_else (opt_field (r_departure f) dp_airport) [],
          aircraft_iata = or_else (opt_field (r_aircraft f) ac_iata) [],
          aircraft_icao = or_else (opt_field (r_aircraft f) ac_icao) [],
          arrival_terminal = or_else (opt_field (r_arrival f) ar_terminal) [],
          arrival_gate = or_else (opt_field (r_arrival f) ar_gate) [],
          arrival_delay = delay_or_null (opt_field (r_arrival f) ar_delay),
          status = or_else (r_flight_status f) ''scheduled''\<rparr>)"

text \<open>
  The loop of lines 51 to 87 over \<open>allRaw\<close>, with its two variables \<open>seen\<close> and \<open>flights\<close>.
  An element of the feed's array may be \<open>null\<close> (here \<open>None\<close>): reading \<open>f.flight\<close> then
  throws a \<open>TypeError\<close>, which leaves the loop. \<open>rnd i\<close> is the random string drawn at
  position \<open>i\<close> of \<open>allRaw\<close>, if one is drawn there.
  \<^verbatim>\<open>
  for (const f of allRaw) {
      const key = f.flight?.iata || f.flight?.icao || Math.random().toString();
      if (seen.has(key)) continue;
      seen.add(key);
      if (f.flight?.codeshared) continue;
      flights.push({...});
  }
  \<close>
\<close>

fun dedupLoop ::
  "(nat \<Rightarrow> string) \<Rightarrow> nat \<Rightarrow> string set \<Rightarrow> arrival_flight list \<Rightarrow> raw_flight option list
    \<Rightarrow> js_error + arrival_flight list" where
  "dedupLoop rnd i seen flights [] = Inr flights"
| "dedupLoop rnd i seen flights (None # rest) =
     Inl (TypeError ''Cannot read properties of null (reading 'flight')'')"
| "dedupLoop rnd i seen flights (Some f # rest) =
     (let key = flightKey (rnd i) f in
      if key \<in> seen then dedupLoop rnd (Suc i) seen flights rest
      else if codeshared f then dedupLoop rnd (Suc i) (insert key seen) flights rest
      else dedupLoop rnd (Suc i) (insert key seen) (flights @ [toRecord f]) rest)"

text \<open>
  \<open>Array.prototype.sort\<close> with a comparator. The sort is stable, so for a consistent
  comparator its result is the one of the stable insertion sort below; \<open>cmp\<close> stands for
  \<open>String.prototype.localeCompare\<close>, which is the platform's.
\<close>

fun insertBy :: "('a \<Rightarrow> 'a \<Rightarrow> int) \<Rightarrow> 'a \<Rightarrow> 'a list \<Rightarrow> 'a list" where
  "insertBy cmp x [] = [x]"
| "insertBy cmp x (y # ys) = (if cmp x y \<le> 0 then x # y # ys else y # insertBy cmp x ys)"

definition sortBy :: "('a \<Rightarrow> 'a \<Rightarrow> int) \<Rightarrow> 'a list \<Rightarrow> 'a list" where
  "sortBy cmp xs = foldr (insertBy cmp) xs []"

text \<open>
  Lines 44 to 90: the three buckets are concatenated landed first, deduplicated and
  sorted by \<open>scheduleDateTime\<close>. A bucket is the array \<open>x.data?.data || []\<close>.
\<close>

definition cdgFlights ::
  "(string \<Rightarrow> string \<Rightarrow> int) \<Rightarrow> (nat \<Rightarrow> string) \<Rightarrow> raw_flight option list \<Rightarrow> raw_flight option list
    \<Rightarrow> raw_flight option list \<Rightarrow> js_error + arrival_flight list" where
  "cdgFlights localeCompare rnd landed active scheduled =
     (let allRaw = landed @ active @ scheduled in
      case dedupLoop rnd 0 {} [] allRaw of
        Inl e \<Rightarrow> Inl e
      | Inr flights \<Rightarrow>
          Inr (sortBy (\<lambda>a b. localeCompare (scheduleDateTime a) (scheduleDateTime b)) flights))"

text \<open>The elements of an array that are not \<open>null\<close>.\<close>

definition present :: "'a option list \<Rightarrow> 'a list" where
  "present xs = List.map_filter (\<lambda>x. x) xs"

text \<open>A raw flight that carries a flight code, a codeshare mark and a status only.\<close>

definition sampleFlight :: "string \<Rightarrow> bool \<Rightarrow> string \<Rightarrow> raw_flight" where
  "sampleFlight code cs st =
     \<lparr>r_flight = Some \<lparr>fi_iata = Some code, fi_icao = None, fi_codeshared = cs\<rparr>,
      r_arrival = None, r_airline = None, r_departure = None, r_aircraft = None,
      r_flight_status = Some st\<rparr>"

section \<open>The Schiphol arrivals function: module state and environment\<close>

text \<open>
  The module-level variables of the function live as long as the process and are
  threaded through the model as a \<open>state\<close>. What the function reads from outside
  (the clock, the two lookup services and the flights feed) is an \<open>env\<close> of oracles.
  Each place where the source may read the clock or call a lookup service is given the
  next index \<open>tick\<close> (also when a short-circuit skips the reading), so that two
  interactions never share an index and an oracle may answer each of them differently.
\<close>

datatype json =
    JNull
  | JBool bool
  | JNum int
  | JStr string
  | JUni "int list"
  | JArr "json list"
  | JObj "(string \<times> json) list"

record airport =
  city :: js_string
  country :: js_string
  name :: js_string
  source :: js_string

record cache_entry =
  data :: json
  timestamp :: int

record state =
  airportCache :: "(string \<times> airport) list"
  lastCacheUpdate :: "int option"
  flightDataCache :: "(string \<times> cache_entry) list"
  apiCallsCount :: nat
  tick :: nat

text \<open>An entry of \<open>response.data.data\<close> of the airport lookup service.\<close>

record api_airport =
  city_name :: js_string
  country_iso2 :: js_string
  airport_name :: js_string

text \<open>
  The outcome of the \<open>axios.get\<close> of \<open>fetchAirportData\<close>: the request fails (axios
  throws), or it answers with the array \<open>response.data.data\<close>, which is \<open>[]\<close> also when
  the body has no such array.
\<close>

datatype api_result = ApiThrows | ApiData "api_airport list"

text \<open>
  The outcome of a page request of the flights feed: it throws, or it answers with a
  status, the array \<open>data.flights\<close> if there is one, and the next-page URL that
  \<open>getNextPageUrl\<close> extracts from the \<open>link\<close> header, if any.
\<close>

datatype upstream_response = Throws | Response nat "flight list option" "string option"

record env =
  clock :: "nat \<Rightarrow> int"
  airportsApi :: "nat \<Rightarrow> string \<Rightarrow> api_result"
  openFlights :: "nat \<Rightarrow> string option"
  upstream :: "nat \<Rightarrow> string option \<Rightarrow> (string \<times> json) list option \<Rightarrow> upstream_response"

definition CACHE_DURATION :: int where
  "CACHE_DURATION = 30 * 24 * 60 * 60 * 1000"

definition FLIGHT_CACHE_DURATION :: int where
  "FLIGHT_CACHE_DURATION = 15 * 60 * 1000"

definition MAX_API_CALLS :: nat where
  "MAX_API_CALLS = 90"

text \<open>Truthiness of a time stamp that may be \<open>null\<close>: \<open>null\<close> and 0 are falsy.\<close>

definition stamped :: "int option \<Rightarrow> bool" where
  "stamped t = (case t of None \<Rightarrow> False | Some n \<Rightarrow> n \<noteq> 0)"

text \<open>Taking the next index of the environment.\<close>

definition step :: "state \<Rightarrow> state" where
  "step s = s\<lparr>tick := Suc (tick s)\<rparr>"

section \<open>Airport metadata\<close>

text \<open>\<open>s.split(sep)\<close> for a one-character separator.\<close>

fun split_on :: "char \<Rightarrow> string \<Rightarrow> string list" where
  "split_on sep [] = [[]]"
| "split_on sep (c # cs) =
     (if c = sep then [] # split_on sep cs
      else (case split_on sep cs of
              [] \<Rightarrow> [[c]]
            | w # ws \<Rightarrow> (c # w) # ws))"

text \<open>\<open>s.replace(/"/g, '')\<close>.\<close>

definition strip_quotes :: "string \<Rightarrow> string" where
  "strip_quotes s = filter (\<lambda>c. c \<noteq> CHR 0x22) s"

record dataset_airport =
  ds_iata :: string
  ds_city :: string
  ds_country :: string
  ds_name :: string

text \<open>
  The callback of \<open>.map\<close> in \<open>fetchOpenFlightsData\<close>: a line with at least five
  comma-separated parts gives an airport, any other line \<open>null\<close>.
\<close>

definition parseLine :: "string \<Rightarrow> dataset_airport option" where
  "parseLine line =
     (let parts = split_on CHR '','' line in
      if length parts \<ge> 5 then
        Some \<lparr>ds_iata = strip_quotes (parts ! 4),
              ds_city = strip_quotes (parts ! 2),
              ds_country = strip_quotes (parts ! 3),
              ds_name = strip_quotes (parts ! 1)\<rparr>
      else None)"

text \<open>
  \<^verbatim>\<open>
  response.data.split('\n').map(...).filter(airport => airport && airport.iata.length === 3)
  \<close>
\<close>

definition datasetAirports :: "string \<Rightarrow> dataset_airport list" where
  "datasetAirports text =
     map the
       (filter (\<lambda>a. case a of None \<Rightarrow> False | Some x \<Rightarrow> length (ds_iata x) = 3)
          (map parseLine (split_on CHR 0x0A text)))"

text \<open>The \<open>forEach\<close> that stores the airports: \<open>Map.set\<close> keeps the place of a key it has.\<close>

definition storeAirports ::
  "dataset_airport list \<Rightarrow> (string \<times> airport) list \<Rightarrow> (string \<times> airport) list" where
  "storeAirports airports cache =
     fold (\<lambda>a c. AList.update (ds_iata a)
                    \<lparr>city = Str (ds_city a), country = Str (ds_country a),
                     name = Str (ds_name a), source = Undefined\<rparr> c)
          airports cache"

text \<open>
  \<^verbatim>\<open>
  async function fetchOpenFlightsData() {
      try {
          // Only fetch if cache is empty or expired
          if (airportCache.size === 0 || !lastCacheUpdate ||
              (Date.now() - lastCacheUpdate) >= CACHE_DURATION) {
              const response = await axios.get('https://.../airports.dat');
              const airports = ...;
              airports.forEach(airport => { airportCache.set(airport.iata, {...}); });
              lastCacheUpdate = Date.now();
          }
      } catch (error) { console.error(...); }
  }
  \<close>
  \<open>openFlights E k\<close> is the text of the dataset when the download made at index \<open>k\<close>
  succeeds, \<open>None\<close> when it throws.
\<close>

definition fetchOpenFlightsData :: "env \<Rightarrow> state \<Rightarrow> state" where
  "fetchOpenFlightsData E s =
     (let now1 = clock E (tick s); s1 = step s in
      if airportCache s1 = [] \<or> \<not> stamped (lastCacheUpdate s1)
         \<or> now1 - the (lastCacheUpdate s1) \<ge> CACHE_DURATION
      then
        (let response = openFlights E (tick s1); s2 = step s1 in
         case response of
           None \<Rightarrow> s2
         | Some text \<Rightarrow>
             step (s2\<lparr>airportCache := storeAirports (datasetAirports text) (airportCache s2),
                      lastCacheUpdate := Some (clock E (tick s2))\<rparr>))
      else s1)"

text \<open>
  \<^verbatim>\<open>
  async function fetchAirportData(iataCode) {
      if (airportCache.has(iataCode)) {
          const cachedData = airportCache.get(iataCode);
          if (lastCacheUpdate && (Date.now() - lastCacheUpdate) < CACHE_DURATION) {
              return cachedData;
          }
      }
      if (apiCallsCount >= MAX_API_CALLS) {
          await fetchOpenFlightsData();
          return airportCache.get(iataCode);
      }
      try {
          const response = await axios.get(..., { params: { ..., iata_code: iataCode } });
          apiCallsCount++;
          if (response.data && response.data.data && response.data.data.length > 0) {
              const airportData = response.data.data[0];
              const result = { city: airportData.city_name, country: airportData.country_iso2,
                               name: airportData.airport_name, source: 'aviationstack' };
              airportCache.set(iataCode, result);
              if (!lastCacheUpdate) lastCacheUpdate = Date.now();
              return result;
          }
          return null;
      } catch (error) {
          await fetchOpenFlightsData();
          return airportCache.get(iataCode);
      }
  }
  \<close>
\<close>

definition fallbackLookup :: "env \<Rightarrow> string \<Rightarrow> state \<Rightarrow> airport option \<times> state" where
  "fallbackLookup E iataCode s =
     (let s' = fetchOpenFlightsData E s in (map_of (airportCache s') iataCode, s'))"

definition fetchAirportData :: "env \<Rightarrow> string \<Rightarrow> state \<Rightarrow> airport option \<times> state" where
  "fetchAirportData E iataCode s =
     (let now1 = clock E (tick s); s1 = step s in
      if map_of (airportCache s1) iataCode \<noteq> None \<and> stamped (lastCacheUpdate s1)
         \<and> now1 - the (lastCacheUpdate s1) < CACHE_DURATION
      then (map_of (airportCache s1) iataCode, s1)
      else if apiCallsCount s1 \<ge> MAX_API_CALLS then fallbackLookup E iataCode s1
      else
        (let response = airportsApi E (tick s1) iataCode; s2 = step s1 in
         case response of
           ApiThrows \<Rightarrow> fallbackLookup E iataCode s2
         | ApiData rows \<Rightarrow>
             (let s3 = s2\<lparr>apiCallsCount := Suc (apiCallsCount s2)\<rparr> in
              case rows of
                [] \<Rightarrow> (None, s3)
              | airportData # _ \<Rightarrow>
                  (let result = \<lparr>city = city_name airportData,
                                 country = country_iso2 airportData,
                                 name = airport_name airportData,
                                 source = Str ''aviationstack''\<rparr>;
                       s4 = s3\<lparr>airportCache := AList.update iataCode result (airportCache s3)\<rparr>;
                       s5 = (if \<not> stamped (lastCacheUpdate s4)
                             then step (s4\<lparr>lastCacheUpdate := Some (clock E (tick s4))\<rparr>)
                             else s4)
                   in (Some result, s5)))))"

text \<open>
  \<^verbatim>\<open>
  async function batchFetchAirportData(iataCodes) {
      const uncachedCodes = iataCodes.filter(code => !airportCache.has(code));
      if (uncachedCodes.length === 0) { return; }
      if (apiCallsCount + uncachedCodes.length > MAX_API_CALLS) {
          await fetchOpenFlightsData();
          return;
      }
      for (const code of uncachedCodes) { await fetchAirportData(code); }
  }
  \<close>
\<close>

definition batchFetchAirportData :: "env \<Rightarrow> string list \<Rightarrow> state \<Rightarrow> state" where
  "batchFetchAirportData E iataCodes s =
     (let uncachedCodes = filter (\<lambda>code. map_of (airportCache s) code = None) iataCodes in
      if uncachedCodes = [] then s
      else if apiCallsCount s + length uncachedCodes > MAX_API_CALLS
      then fetchOpenFlightsData E s
      else fold (\<lambda>code s'. snd (fetchAirportData E code s')) uncachedCodes s)"

text \<open>Sample data: a three-line dataset, an environment and a state.\<close>

definition sampleDataset :: string where
  "sampleDataset =
     ''507,London Heathrow Airport,London,United Kingdom,LHR,EGLL'' @ [CHR 0x0A] @
     ''3797,John F Kennedy International Airport,New York,United States,'' @
       [CHR 0x22] @ ''JFK'' @ [CHR 0x22] @ '',KJFK'' @ [CHR 0x0A] @
     ''9999,Heliport,Nowhere,Noland,-,XXXX''"

definition sampleEnv :: env where
  "sampleEnv =
     \<lparr>clock = (\<lambda>k. 1000 + int (min k 50)),
      airportsApi = (\<lambda>k code. ApiData
        [\<lparr>city_name = Str ''Amsterdam'', country_iso2 = Str ''NL'',
          airport_name = Str ''Schiphol''\<rparr>]),
      openFlights = (\<lambda>k. Some sampleDataset),
      upstream = (\<lambda>k url params. Throws)\<rparr>"

definition sampleState :: "(string \<times> airport) list \<Rightarrow> int option \<Rightarrow> nat \<Rightarrow> state" where
  "sampleState cache stamp calls =
     \<lparr>airportCache = cache, lastCacheUpdate = stamp, flightDataCache = [],
      apiCallsCount = calls, tick = 0\<rparr>"






section \<open>The response cache\<close>

text \<open>
  \<^verbatim>\<open>
  function isFlightCacheValid(cacheEntry) {
      if (!cacheEntry || !cacheEntry.timestamp) return false;
      return (Date.now() - cacheEntry.timestamp) < FLIGHT_CACHE_DURATION;
  }
  \<close>
  \<open>now\<close> is the value of \<open>Date.now()\<close> at the call.
\<close>

definition isFlightCacheValid :: "int \<Rightarrow> cache_entry option \<Rightarrow> bool" where
  "isFlightCacheValid now cacheEntry =
     (case cacheEntry of
        None \<Rightarrow> False
      | Some e \<Rightarrow> if timestamp e = 0 then False else now - timestamp e < FLIGHT_CACHE_DURATION)"

text \<open>
  The clean-up loop of lines 625 to 629. Each entry is examined at its own reading of
  the clock, \<open>clock E k\<close> for the entry at index \<open>k\<close> of the traversal.
  \<^verbatim>\<open>
  for (const [key, value] of flightDataCache.entries()) {
      if (!isFlightCacheValid(value)) { flightDataCache.delete(key); }
  }
  \<close>
\<close>

fun sweep :: "env \<Rightarrow> nat \<Rightarrow> (string \<times> cache_entry) list \<Rightarrow> (string \<times> cache_entry) list" where
  "sweep E k [] = []"
| "sweep E k ((key, v) # rest) =
     (if \<not> isFlightCacheValid (clock E k) (Some v) then sweep E (Suc k) rest
      else (key, v) # sweep E (Suc k) rest)"

text \<open>
  Lines 618 to 629: the write of a response, followed by the clean-up.
  \<^verbatim>\<open>
  flightDataCache.set(cacheKey, { data: response, timestamp: Date.now() });
  \<close>
\<close>

definition storeResponse :: "env \<Rightarrow> string \<Rightarrow> json \<Rightarrow> state \<Rightarrow> state" where
  "storeResponse E cacheKey response s =
     (let s1 = step (s\<lparr>flightDataCache :=
                 AList.update cacheKey \<lparr>data = response, timestamp = clock E (tick s)\<rparr>
                   (flightDataCache s)\<rparr>)
      in s1\<lparr>flightDataCache := sweep E (tick s1) (flightDataCache s1),
            tick := tick s1 + length (flightDataCache s1)\<rparr>)"

section \<open>The pagination loop\<close>

text \<open>
  \<open>fetchPage\<close>: a request that throws or answers with a status other than 200 gives the
  empty page; otherwise \<open>flights\<close> is \<open>data.flights || []\<close> and \<open>hasMore\<close> is
  \<open>Boolean(nextUrl)\<close>.
\<close>

record page =
  pg_flights :: "flight list"
  pg_hasMore :: bool
  pg_nextUrl :: "string option"

definition fetchPage :: "upstream_response \<Rightarrow> page" where
  "fetchPage r =
     (case r of
        Throws \<Rightarrow> \<lparr>pg_flights = [], pg_hasMore = False, pg_nextUrl = None\<rparr>
      | Response st fl nextUrl \<Rightarrow>
          if st \<noteq> 200 then \<lparr>pg_flights = [], pg_hasMore = False, pg_nextUrl = None\<rparr>
          else \<lparr>pg_flights = (case fl of None \<Rightarrow> [] | Some fs \<Rightarrow> fs),
                pg_hasMore = truthy nextUrl, pg_nextUrl = nextUrl\<rparr>)"

text \<open>
  The variables of the loop of lines 539 to 582. \<open>fetches\<close> counts the calls of
  \<open>fetchPage\<close>; it is not a variable of the source. \<open>currentParams\<close> is \<open>Some\<close> of the
  request parameters until the first page has been fetched, \<open>null\<close> afterwards.
  \<open>pageCount\<close> is a double that holds an integer.
\<close>

record loop_state =
  allFlights :: "flight list"
  pageCount :: int
  totalFlightsSeen :: nat
  currentUrl :: "string option"
  currentParams :: "(string \<times> json) list option"
  hasMore :: bool
  pastFlightPagesCount :: nat
  fetches :: nat

definition MAX_PAST_PAGES :: nat where
  "MAX_PAST_PAGES = 3"

datatype 'a outcome = Break 'a | Continue 'a

text \<open>
  Arithmetic on doubles that hold integers. \<open>nearest x\<close> is the double nearest to the
  integer \<open>x\<close>, ties going to the even significand of 53 bits; every integer up to
  \<open>2 ^ 53\<close> in size is a double. The sums and differences below stay far from the
  largest double.
\<close>

function bitlen :: "int \<Rightarrow> nat" where
  "bitlen n = (if n \<le> 0 then 0 else Suc (bitlen (n div 2)))"
  by pat_completeness auto
termination
  by (relation "measure nat") auto

declare bitlen.simps [simp del]

definition nearest :: "int \<Rightarrow> int" where
  "nearest x =
     (let a = \<bar>x\<bar>;
          e = bitlen a - 53;
          q = a div 2 ^ e;
          r = a mod 2 ^ e
      in if e = 0 then x
         else if 2 * r > 2 ^ e \<or> (2 * r = 2 ^ e \<and> odd q) then sgn x * ((q + 1) * 2 ^ e)
         else sgn x * (q * 2 ^ e))"

text \<open>\<open>pageCount++\<close>.\<close>

definition increment :: "int \<Rightarrow> int" where
  "increment n = nearest (n + 1)"

text \<open>
  The two tests against \<open>maxPages\<close>, \<open>pageCount < maxPages\<close> and
  \<open>pageCount >= maxPages - 1\<close>. \<open>Infinity - 1\<close> is \<open>Infinity\<close>.
\<close>

fun below :: "int \<Rightarrow> js_number \<Rightarrow> bool" where
  "below n (Finite k) = (n < k)"
| "below n PosInfinity = True"
| "below n NegInfinity = False"

fun reached :: "int \<Rightarrow> js_number \<Rightarrow> bool" where
  "reached n (Finite k) = (n \<ge> nearest (k - 1))"
| "reached n PosInfinity = False"
| "reached n NegInfinity = True"

text \<open>
  One run of the loop body, which ends in \<open>break\<close> or at the end of the body.
  \<open>feed k url params\<close> is the outcome of the \<open>k\<close>-th page request of the invocation.
  \<^verbatim>\<open>
  const { flights, hasMore: morePages, nextUrl } =
      pageCount === 0 ? await fetchPage(currentUrl, headers, currentParams)
                      : await fetchPage(currentUrl, headers);
  if (!flights || flights.length === 0) { break; }
  const futureFlights = flights.filter(flight => isFlightInFuture(flight, nlTime));
  if (futureFlights.length === 0) {
      pastFlightPagesCount++;
      if (pastFlightPagesCount >= MAX_PAST_PAGES) { break; }
  } else { pastFlightPagesCount = 0; }
  totalFlightsSeen += flights.length;
  allFlights = [...allFlights, ...futureFlights];
  if (!morePages) { hasMore = false; break; }
  if (pageCount >= maxPages - 1) { hasMore = morePages; break; }
  pageCount++;
  currentUrl = nextUrl;
  currentParams = null;
  \<close>
\<close>

definition loopBody ::
  "(nat \<Rightarrow> string option \<Rightarrow> (string \<times> json) list option \<Rightarrow> upstream_response)
    \<Rightarrow> (string \<Rightarrow> int option) \<Rightarrow> int \<Rightarrow> js_number \<Rightarrow> loop_state \<Rightarrow> loop_state outcome" where
  "loopBody feed parseDate nlTime maxPages st =
     (let pg = fetchPage (feed (fetches st) (currentUrl st)
                 (if pageCount st = 0 then currentParams st else None));
          st1 = st\<lparr>fetches := Suc (fetches st)\<rparr>
      in if pg_flights pg = [] then Break st1
         else
           (let futureFlights = filter (\<lambda>flight. isFlightInFuture parseDate flight nlTime)
                                  (pg_flights pg);
                st2 = (if futureFlights = []
                       then st1\<lparr>pastFlightPagesCount := Suc (pastFlightPagesCount st1)\<rparr>
                       else st1\<lparr>pastFlightPagesCount := 0\<rparr>)
            in if futureFlights = [] \<and> pastFlightPagesCount st2 \<ge> MAX_PAST_PAGES then Break st2
               else
                 (let st3 = st2\<lparr>totalFlightsSeen := totalFlightsSeen st2 + length (pg_flights pg),
                                allFlights := allFlights st2 @ futureFlights\<rparr>
                  in if \<not> pg_hasMore pg then Break (st3\<lparr>hasMore := False\<rparr>)
                     else if reached (pageCount st3) maxPages
                       then Break (st3\<lparr>hasMore := pg_hasMore pg\<rparr>)
                     else Continue (st3\<lparr>pageCount := increment (pageCount st3),
                                        currentUrl := pg_nextUrl pg,
                                        currentParams := None\<rparr>))))"

text \<open>
  \<open>while (hasMore && pageCount < maxPages) { ... }\<close>. The loop need not end, so its
  result is an option: \<open>None\<close> when it runs forever.
\<close>

partial_function (option) paginate ::
  "(nat \<Rightarrow> string option \<Rightarrow> (string \<times> json) list option \<Rightarrow> upstream_response)
    \<Rightarrow> (string \<Rightarrow> int option) \<Rightarrow> int \<Rightarrow> js_number \<Rightarrow> loop_state \<Rightarrow> loop_state option" where
  "paginate feed parseDate nlTime maxPages st =
     (if hasMore st \<and> below (pageCount st) maxPages then
        (case loopBody feed parseDate nlTime maxPages st of
           Break st' \<Rightarrow> Some st'
         | Continue st' \<Rightarrow> paginate feed parseDate nlTime maxPages st')
      else Some st)"

text \<open>The variables of the loop as the handler initialises them (lines 523 to 529).\<close>

definition initialLoop :: "string \<Rightarrow> (string \<times> json) list \<Rightarrow> loop_state" where
  "initialLoop baseApiUrl apiParams =
     \<lparr>allFlights = [], pageCount = 0, totalFlightsSeen = 0, currentUrl = Some baseApiUrl,
      currentParams = Some apiParams, hasMore = True, pastFlightPagesCount = 0, fetches = 0\<rparr>"

text \<open>
  Sample data: a feed whose every page holds a flight and names a next page, an
  environment whose clock is late, and a state whose response cache holds an old entry.
\<close>

definition endlessFeed ::
  "nat \<Rightarrow> string option \<Rightarrow> (string \<times> json) list option \<Rightarrow> upstream_response" where
  "endlessFeed k url params =
     Response 200
       (Some [\<lparr>scheduleDate = Some ''2024-03-20'', scheduleTime = Some ''14:30:00'',
               destination0 = None, cityInfo = None\<rparr>])
       (Some ''https://api.schiphol.nl/public-flights/flights?page=next'')"

definition lateEnv :: env where
  "lateEnv =
     \<lparr>clock = (\<lambda>k. 2000000 + int k),
      airportsApi = (\<lambda>k code. ApiThrows),
      openFlights = (\<lambda>k. None),
      upstream = endlessFeed\<rparr>"

definition staleState :: state where
  "staleState =
     \<lparr>airportCache = [], lastCacheUpdate = None,
      flightDataCache = [(''2024-03-20_all'', \<lparr>data = JStr ''payload'', timestamp = 1000\<rparr>)],
      apiCallsCount = 0, tick = 0\<rparr>"

text \<open>
  A request whose \<open>maxPages\<close> is a numeral of 310 digits, and a platform whose \<open>parseInt\<close>
  reads it as \<open>Infinity\<close>, as it is above the largest double.
\<close>

definition longNumeral :: string where
  "longNumeral = replicate 310 CHR ''9''"

section \<open>Enriching the flights with airport metadata\<close>

text \<open>
  \<open>destination.match(/\(([A-Z]{3})\)/)\<close>: the three capital letters of the first
  parenthesised three-letter code, if there is one.
\<close>

definition isCapital :: "char \<Rightarrow> bool" where
  "isCapital c = ((65::nat) \<le> of_char c \<and> (of_char c :: nat) \<le> 90)"

fun matchCode :: "string \<Rightarrow> string option" where
  "matchCode [] = None"
| "matchCode (c # cs) =
     (if c = CHR ''(''
         \<and> (case cs of
               a # b # d # e # _ \<Rightarrow> isCapital a \<and> isCapital b \<and> isCapital d \<and> e = CHR '')''
             | _ \<Rightarrow> False)
      then Some (take 3 cs)
      else matchCode cs)"

text \<open>\<open>Set.prototype.add\<close> on a set kept in insertion order.\<close>

definition set_add :: "'a list \<Rightarrow> 'a \<Rightarrow> 'a list" where
  "set_add xs x = (if x \<in> set xs then xs else xs @ [x])"

text \<open>The first \<open>forEach\<close> of \<open>processFlightData\<close>, and \<open>[...iataCodes]\<close>.\<close>

definition collectCodes :: "flight list \<Rightarrow> string list" where
  "collectCodes flights =
     fold (\<lambda>flight iataCodes.
             if truthy (destination0 flight) then
               (case matchCode (the (destination0 flight)) of
                  None \<Rightarrow> iataCodes
                | Some code \<Rightarrow> set_add iataCodes code)
             else iataCodes)
          flights []"

text \<open>A template literal prints \<open>undefined\<close> and \<open>null\<close> as these words.\<close>

fun shown :: "js_string \<Rightarrow> string" where
  "shown Undefined = ''undefined''"
| "shown Null = ''null''"
| "shown (Str s) = s"

text \<open>
  The callback of \<open>flights.map\<close> in \<open>processFlightData\<close> (lines 235 to 263). It throws
  when \<open>getFlagEmoji\<close> throws.
\<close>

definition enrich :: "(string \<times> airport) list \<Rightarrow> flight \<Rightarrow> js_error + flight" where
  "enrich cache flight =
     (if truthy (destination0 flight) then
        (let destination = the (destination0 flight);
             iataCode = matchCode destination
         in case iataCode of
              None \<Rightarrow> Inr flight
            | Some code \<Rightarrow>
                (case map_of cache code of
                   None \<Rightarrow> Inr flight
                 | Some airportData \<Rightarrow>
                     (case getFlagEmoji (string_of (country airportData)) of
                        Inl e \<Rightarrow> Inl e
                      | Inr flag \<Rightarrow>
                          (let flight1 = flight\<lparr>cityInfo :=
                                 Some \<lparr>ci_city = city airportData,
                                       ci_country = country airportData,
                                       ci_flag = flag,
                                       ci_airportName = name airportData,
                                       ci_source = source airportData\<rparr>\<rparr>
                           in if CHR ''('' \<notin> set destination
                              then Inr (flight1\<lparr>destination0 :=
                                     Some (shown (city airportData) @ '' ('' @ code @ '')'')\<rparr>)
                              else Inr flight1))))
      else Inr flight)"

text \<open>
  \<open>Promise.all\<close> over promises that are all settled: the first rejection in the order
  of the array, or the array of the values.
\<close>

fun promiseAll :: "(js_error + 'a) list \<Rightarrow> js_error + 'a list" where
  "promiseAll [] = Inr []"
| "promiseAll (Inl e # rest) = Inl e"
| "promiseAll (Inr x # rest) =
     (case promiseAll rest of Inl e \<Rightarrow> Inl e | Inr xs \<Rightarrow> Inr (x # xs))"

definition processFlightData ::
  "env \<Rightarrow> flight list \<Rightarrow> state \<Rightarrow> (js_error + flight list) \<times> state" where
  "processFlightData E flights s =
     (let s1 = batchFetchAirportData E (collectCodes flights) s
      in (promiseAll (map (enrich (airportCache s1)) flights), s1))"

section \<open>The Schiphol arrivals handler\<close>

text \<open>
  What the JavaScript platform supplies to one invocation: the environment variables,
  the local time \<open>nlTime\<close> (its time value, hours and minutes) with its date-fns
  formats, and the built-in functions \<open>parseInt\<close>, the \<open>Date\<close> constructor,
  \<open>localeCompare\<close> and \<open>JSON.stringify\<close> (on an object of query parameters).
\<close>

record platform =
  SCHIPHOL_APP_ID :: "string option"
  SCHIPHOL_APP_KEY :: "string option"
  AVIATIONSTACK_API_KEY :: "string option"
  nlTimeValue :: int
  nlHours :: int
  nlMinutes :: int
  todayDate :: string
  fromDateTime :: string
  toDateTime :: string
  queryTime :: string
  isoTimestamp :: string
  jsParseInt :: "string option \<Rightarrow> js_number option"
  jsParseDate :: "string \<Rightarrow> int option"
  jsLocaleCompare :: "string \<Rightarrow> string \<Rightarrow> int"
  jsStringify :: "(string \<times> string) list \<Rightarrow> string"

text \<open>
  An HTTP response. \<open>body\<close> is the value that the handler passes to \<open>JSON.stringify\<close>; a
  key whose value is \<open>undefined\<close> is left out, as \<open>JSON.stringify\<close> does.
\<close>

record response =
  statusCode :: nat
  headers :: "(string \<times> string) list"
  body :: json

text \<open>The value of a key of a JSON object, \<open>None\<close> when the key is absent.\<close>

fun field :: "json \<Rightarrow> string \<Rightarrow> json option" where
  "field (JObj kvs) k = map_of kvs k"
| "field _ k = None"

text \<open>Whether a JSON value is an object.\<close>

fun is_object :: "json \<Rightarrow> bool" where
  "is_object (JObj kvs) = True"
| "is_object _ = False"

text \<open>\<open>{ ...obj, k: v }\<close>\<close>

fun with_field :: "json \<Rightarrow> string \<Rightarrow> json \<Rightarrow> json" where
  "with_field (JObj kvs) k v = JObj (AList.update k v kvs)"
| "with_field _ k v = JObj [(k, v)]"

text \<open>
  A key whose value is a string, \<open>null\<close> or \<open>undefined\<close>: \<open>JSON.stringify\<close> leaves the
  last out.
\<close>

fun js_key :: "string \<Rightarrow> js_string \<Rightarrow> (string \<times> json) list" where
  "js_key k Undefined = []"
| "js_key k Null = [(k, JNull)]"
| "js_key k (Str s) = [(k, JStr s)]"

text \<open>A key that is present only when its value is.\<close>

definition opt_key :: "string \<Rightarrow> json option \<Rightarrow> (string \<times> json) list" where
  "opt_key k v = (case v of None \<Rightarrow> [] | Some j \<Rightarrow> [(k, j)])"

text \<open>\<open>Math.round(x / 1000)\<close> for an integer \<open>x\<close>: halves round up.\<close>

definition round_seconds :: "int \<Rightarrow> int" where
  "round_seconds x = (x + 500) div 1000"

definition TIME_WINDOWS :: "(string \<times> (string \<times> json) list) list" where
  "TIME_WINDOWS =
     [(''morning'', [(''displayName'', JStr ''Morning Arrivals''), (''startTime'', JStr ''06:00''),
                     (''endTime'', JStr ''11:59''), (''description'', JStr ''6AM-12PM'')]),
      (''afternoon'', [(''displayName'', JStr ''Afternoon Arrivals''), (''startTime'', JStr ''12:00''),
                       (''endTime'', JStr ''17:59''), (''description'', JStr ''12PM-6PM'')]),
      (''evening'', [(''displayName'', JStr ''Evening Arrivals''), (''startTime'', JStr ''18:00''),
                     (''endTime'', JStr ''21:59''), (''description'', JStr ''6PM-10PM'')]),
      (''night'', [(''displayName'', JStr ''Night Arrivals''), (''startTime'', JStr ''22:00''),
                   (''endTime'', JStr ''23:59''), (''description'', JStr ''10PM-12AM'')]),
      (''early_morning'', [(''displayName'', JStr ''Early Morning Arrivals''),
                           (''startTime'', JStr ''00:00''), (''endTime'', JStr ''05:59''),
                           (''description'', JStr ''12AM-6AM'')]),
      (''current'', [(''displayName'', JStr ''Current Arrivals''), (''dynamicWindow'', JBool True),
                     (''description'', JStr (''Now '' @ [CHR 0xB1] @ ''2 hours''))])]"

definition validParams :: "string list" where
  "validParams =
     [''scheduleDate'', ''scheduleTime'', ''flightName'', ''flightDirection'',
      ''airline'', ''airlineCode'', ''route'', ''includedelays'', ''page'',
      ''sort'', ''fromDateTime'', ''toDateTime'', ''searchDateTimeField'',
      ''fromScheduleDate'', ''toScheduleDate'', ''isOperationalFlight'']"

text \<open>
  \<^verbatim>\<open>
  function validateAndCleanParams(params) {
      const cleanedParams = {};
      Object.keys(params).forEach(key => {
          if (validParams.includes(key)) { cleanedParams[key] = params[key]; }
      });
      cleanedParams.flightDirection = 'A';
      return cleanedParams;
  }
  \<close>
\<close>

definition validateAndCleanParams :: "(string \<times> string) list \<Rightarrow> (string \<times> json) list" where
  "validateAndCleanParams params =
     AList.update ''flightDirection'' (JStr ''A'')
       (map (\<lambda>(key, v). (key, JStr v)) (filter (\<lambda>(key, v). key \<in> set validParams) params))"

text \<open>
  \<^verbatim>\<open>
  function estimateStartingPage(nlTime) {
      const hour = nlTime.getHours();
      const minute = nlTime.getMinutes();
      let hoursFromStart = hour - 6;
      if (hoursFromStart < 0) hoursFromStart += 24;
      const hourBasedPage = hoursFromStart * 2;
      const minuteAdjustment = Math.floor((minute / 60) * 2);
      const estimatedPage = Math.max(0, Math.floor(hourBasedPage + minuteAdjustment));
      return estimatedPage;
  }
  \<close>
\<close>

definition estimateStartingPage :: "int \<Rightarrow> int \<Rightarrow> int" where
  "estimateStartingPage hour minute =
     (let hoursFromStart = (if hour - 6 < 0 then hour - 6 + 24 else hour - 6);
          hourBasedPage = hoursFromStart * 2;
          minuteAdjustment = (minute * 2) div 60
      in max 0 (hourBasedPage + minuteAdjustment))"

text \<open>
  \<^verbatim>\<open>
  function getFlightCacheKey(date, timeWindow, params) {
      if (Object.keys(params).length > 0) {
          const relevantParams = { ...params };
          delete relevantParams.page;
          return `${date}_${JSON.stringify(relevantParams)}`;
      }
      return `${date}_${timeWindow || 'all'}`;
  }
  \<close>
\<close>

definition getFlightCacheKey ::
  "((string \<times> string) list \<Rightarrow> string) \<Rightarrow> string \<Rightarrow> string option \<Rightarrow> (string \<times> string) list
    \<Rightarrow> string" where
  "getFlightCacheKey stringify date timeWindow params =
     (if params \<noteq> [] then date @ ''_'' @ stringify (AList.delete ''page'' params)
      else date @ ''_'' @ or_else timeWindow ''all'')"

text \<open>
  The JSON of a flight. A flight of the feed has further fields, which the function
  passes on untouched; they are not part of the model.
\<close>

definition cityInfoJson :: "city_info \<Rightarrow> json" where
  "cityInfoJson ci =
     JObj (js_key ''city'' (ci_city ci)
           @ js_key ''country'' (ci_country ci)
           @ [(''flag'', JUni (ci_flag ci))]
           @ js_key ''airportName'' (ci_airportName ci)
           @ js_key ''source'' (ci_source ci))"

definition flightJson :: "flight \<Rightarrow> json" where
  "flightJson f =
     JObj (opt_key ''scheduleDate'' (map_option JStr (scheduleDate f))
           @ opt_key ''scheduleTime'' (map_option JStr (scheduleTime f))
           @ opt_key ''route''
               (map_option (\<lambda>d. JObj [(''destinations'', JArr [JStr d])]) (destination0 f))
           @ opt_key ''cityInfo'' (map_option cityInfoJson (cityInfo f)))"

text \<open>
  \<open>parseInt(queryParams.maxPages) || 200\<close>: \<open>NaN\<close> (here \<open>None\<close>) and 0 are falsy, every
  other number is kept, the infinite ones too.
\<close>

definition maxPagesOf :: "js_number option \<Rightarrow> js_number" where
  "maxPagesOf n =
     (case n of
        None \<Rightarrow> Finite 200
      | Some (Finite k) \<Rightarrow> if k = 0 then Finite 200 else Finite k
      | Some PosInfinity \<Rightarrow> PosInfinity
      | Some NegInfinity \<Rightarrow> NegInfinity)"

text \<open>The string that a parameter holds, if it holds one.\<close>

fun str_of :: "json option \<Rightarrow> string option" where
  "str_of (Some (JStr s)) = Some s"
| "str_of _ = None"

text \<open>
  Lines 481 to 508 and 533 to 536: the parameters of the first page request. The
  starting page is written into the same object.
\<close>

definition apiParamsOf :: "platform \<Rightarrow> (string \<times> string) list \<Rightarrow> (string \<times> json) list" where
  "apiParamsOf P rawQueryParams =
     (let p0 = (if rawQueryParams \<noteq> [] then validateAndCleanParams rawQueryParams
                else [(''flightDirection'', JStr ''A''),
                      (''fromDateTime'', JStr (fromDateTime P)),
                      (''toDateTime'', JStr (toDateTime P)),
                      (''searchDateTimeField'', JStr ''scheduleDateTime'')]);
          p1 = (if \<not> truthy (str_of (map_of p0 ''sort''))
                then AList.update ''sort'' (JStr ''+scheduleTime'') p0 else p0);
          p2 = (if map_of p1 ''page'' = None then AList.update ''page'' (JNum 0) p1 else p1);
          estimatedStartPage = estimateStartingPage (nlHours P) (nlMinutes P)
      in if estimatedStartPage > 0 then AList.update ''page'' (JNum estimatedStartPage) p2
         else p2)"

text \<open>\<open>apiParams.scheduleDate || apiParams.fromDateTime?.split('T')[0]\<close>\<close>

definition targetDate :: "(string \<times> json) list \<Rightarrow> string option" where
  "targetDate apiParams =
     (if truthy (str_of (map_of apiParams ''scheduleDate''))
      then str_of (map_of apiParams ''scheduleDate'')
      else (case str_of (map_of apiParams ''fromDateTime'') of
              None \<Rightarrow> None
            | Some s \<Rightarrow> (case split_on CHR ''T'' s of [] \<Rightarrow> None | x # _ \<Rightarrow> Some x)))"

text \<open>The comparator of the sort of lines 590 to 594.\<close>

definition byScheduleTime :: "(string \<Rightarrow> string \<Rightarrow> int) \<Rightarrow> flight \<Rightarrow> flight \<Rightarrow> int" where
  "byScheduleTime cmp a b =
     (if \<not> truthy (scheduleTime a) then 1
      else if \<not> truthy (scheduleTime b) then - 1
      else cmp (the (scheduleTime a)) (the (scheduleTime b)))"

definition okHeaders :: "(string \<times> string) list" where
  "okHeaders =
     [(''Content-Type'', ''application/json''),
      (''Cache-Control'', ''public, s-maxage=60, stale-while-revalidate=30'')]"

text \<open>The response of lines 463 to 478, for a valid cache entry.\<close>

definition cachedResponse :: "env \<Rightarrow> cache_entry \<Rightarrow> state \<Rightarrow> response \<times> state" where
  "cachedResponse E cachedData s =
     (let now2 = clock E (tick s);
          now3 = clock E (Suc (tick s));
          meta0 = (case field (data cachedData) ''meta'' of None \<Rightarrow> JObj [] | Some m \<Rightarrow> m);
          meta1 = with_field meta0 ''cached'' (JBool True);
          meta2 = with_field meta1 ''cacheAge''
                    (JNum (round_seconds (now2 - timestamp cachedData)));
          meta3 = with_field meta2 ''nextUpdate''
                    (JNum (round_seconds (timestamp cachedData + FLIGHT_CACHE_DURATION - now3)))
      in (\<lparr>statusCode = 200, headers = okHeaders,
           body = with_field (data cachedData) ''meta'' meta3\<rparr>,
          step (step s)))"

text \<open>
  \<open>TIME_WINDOWS[timeWindow]\<close> as \<open>JSON.stringify\<close> writes it. The look-up is one in a
  plain object: besides the six windows it finds what the object inherits, which are
  functions (left out by \<open>JSON.stringify\<close>) and, under \<open>__proto__\<close>, the prototype
  object, written as the empty object.
\<close>

definition windowDetails :: "string \<Rightarrow> json option" where
  "windowDetails w =
     (if w = ''__proto__'' then Some (JObj []) else map_option JObj (map_of TIME_WINDOWS w))"

text \<open>The response object of lines 597 to 616.\<close>

definition responseJson ::
  "platform \<Rightarrow> string option \<Rightarrow> (string \<times> json) list \<Rightarrow> loop_state \<Rightarrow> flight list \<Rightarrow> json" where
  "responseJson P timeWindow apiParams st flights =
     JObj [(''flights'', JArr (map flightJson flights)),
           (''timeInfo'',
              JObj ([(''queryTime'', JStr (queryTime P))]
                    @ opt_key ''targetDate'' (map_option JStr (targetDate apiParams))
                    @ opt_key ''timeWindow'' (map_option JStr timeWindow)
                    @ opt_key ''windowDetails''
                        (case timeWindow of
                           None \<Rightarrow> None
                         | Some w \<Rightarrow> windowDetails w))),
           (''meta'',
              JObj [(''totalFlights'', JNum (int (length flights))),
                    (''pagesRetrieved'', JNum (increment (pageCount st))),
                    (''hasMorePages'', JBool (hasMore st)),
                    (''cached'', JBool False),
                    (''availableTimeWindows'',
                       JArr (map (\<lambda>(key, v).
                                    JObj ([(''id'', JStr key)]
                                          @ opt_key ''displayName'' (map_of v ''displayName'')
                                          @ opt_key ''description'' (map_of v ''description'')))
                                 TIME_WINDOWS))])]"

text \<open>
  The \<open>try\<close> block of lines 513 to 640 with its \<open>catch\<close>: the loop, the enrichment (which
  may throw), the sort, the response, the write to the cache. The request headers carry
  the credentials only and are left out: the feed is an oracle. The result is \<open>None\<close>
  when the loop does not end, in which case the function never answers.
\<close>

definition tryBlock ::
  "platform \<Rightarrow> env \<Rightarrow> string option \<Rightarrow> js_number \<Rightarrow> string \<Rightarrow> (string \<times> json) list \<Rightarrow> state
    \<Rightarrow> (response \<times> state) option" where
  "tryBlock P E timeWindow maxPages cacheKey apiParams s =
     (case paginate (upstream E) (jsParseDate P) (nlTimeValue P) maxPages
             (initialLoop ''https://api.schiphol.nl/public-flights/flights'' apiParams) of
        None \<Rightarrow> None
      | Some st \<Rightarrow>
          (case processFlightData E (allFlights st) s of
             (Inl error, s2) \<Rightarrow>
               Some (\<lparr>statusCode = 500, headers = [],
                      body = JObj [(''message'', JStr ''Internal Server Error.''),
                                   (''error'', JStr (message error)),
                                   (''flights'', JArr [])]\<rparr>,
                     s2)
           | (Inr enriched, s2) \<Rightarrow>
               (let sorted = sortBy (byScheduleTime (jsLocaleCompare P)) enriched;
                    response = responseJson P timeWindow apiParams st sorted
                in Some (\<lparr>statusCode = 200, headers = okHeaders, body = response\<rparr>,
                         storeResponse E cacheKey response s2))))"

text \<open>
  \<open>exports.handler\<close> of the Schiphol function. \<open>queryParams\<close> is
  \<open>event.queryStringParameters || {}\<close>.
\<close>

definition handler ::
  "platform \<Rightarrow> env \<Rightarrow> (string \<times> string) list \<Rightarrow> state \<Rightarrow> (response \<times> state) option" where
  "handler P E queryParams s =
     (if \<not> truthy (SCHIPHOL_APP_ID P) \<or> \<not> truthy (SCHIPHOL_APP_KEY P) then
        Some (\<lparr>statusCode = 500, headers = [],
               body = JObj [(''message'', JStr ''Server configuration error.'')]\<rparr>,
              s)
      else
        (let timeWindow = map_of queryParams ''timeWindow'';
             rawQueryParams =
               filter (\<lambda>(key, v). key \<notin> {''timeWindow'', ''maxPages'', ''useDateTimeRange''})
                 queryParams;
             maxPages = maxPagesOf (jsParseInt P (map_of queryParams ''maxPages''));
             cacheKey = getFlightCacheKey (jsStringify P) (todayDate P) timeWindow rawQueryParams;
             cachedData = map_of (flightDataCache s) cacheKey;
             now1 = clock E (tick s);
             s1 = step s
         in if isFlightCacheValid now1 cachedData then Some (cachedResponse E (the cachedData) s1)
            else tryBlock P E timeWindow maxPages cacheKey (apiParamsOf P rawQueryParams) s1))"

section \<open>The multi-status handler\<close>

text \<open>
  The environment of the multi-status function: the clock at the three places that read
  it, the answer \<open>x.data?.data\<close> of the flights service for an airport and a status
  (\<open>None\<close> when the request fails, which \<open>.catch\<close> turns into an empty array, or when the
  body has no array), and the random strings.
\<close>

record cdg_env =
  cdg_clock :: "nat \<Rightarrow> int"
  flightsApi :: "string \<Rightarrow> string \<Rightarrow> raw_flight option list option"
  random :: "nat \<Rightarrow> string"

definition CACHE_MS :: int where
  "CACHE_MS = 5 * 60 * 1000"

definition bucket :: "cdg_env \<Rightarrow> string \<Rightarrow> string \<Rightarrow> raw_flight option list" where
  "bucket E arrIata st = (case flightsApi E arrIata st of None \<Rightarrow> [] | Some fs \<Rightarrow> fs)"

definition arrivalJson :: "arrival_flight \<Rightarrow> json" where
  "arrivalJson r =
     JObj [(''flightName'', JStr (flightName r)),
           (''scheduleDateTime'', JStr (scheduleDateTime r)),
           (''scheduleTime'', JStr (o_scheduleTime r)),
           (''airline'', JObj [(''name'', JStr (airline_name r)), (''iata'', JStr (airline_iata r)),
                               (''icao'', JStr (airline_icao r))]),
           (''departure'', JObj [(''airport'', JStr (departure_airport r)),
                                 (''iata'', JStr (departure_iata r)),
                                 (''city'', JStr (departure_city r))]),
           (''aircraft'', JObj [(''iata'', JStr (aircraft_iata r)),
                                (''icao'', JStr (aircraft_icao r))]),
           (''arrival'', JObj [(''terminal'', JStr (arrival_terminal r)),
                               (''gate'', JStr (arrival_gate r)),
                               (''delay'', (case arrival_delay r of None \<Rightarrow> JNull
                                            | Some n \<Rightarrow> JNum n))]),
           (''status'', JStr (status r))]"

text \<open>
  The statements of the function that arrivals-cdg.js assigns to \<open>exports.handler\<close>, in
  the order of the file. \<open>flightCaches\<close> is the module's cache object, an entry
  \<open>{ data, time }\<close> being a \<open>cache_entry\<close>. Both declarations of \<open>queryParams\<close> (lines 8
  and 27) have the initialiser \<open>event.queryStringParameters || {}\<close>. Whether these
  statements ever run is decided by \<open>cdgHandler\<close> below.
\<close>

definition cdgHandlerBody ::
  "platform \<Rightarrow> cdg_env \<Rightarrow> (string \<times> string) list \<Rightarrow> (string \<times> cache_entry) list
    \<Rightarrow> response \<times> (string \<times> cache_entry) list" where
  "cdgHandlerBody P E queryParams flightCaches =
     (let cacheKey = toUpperCase (or_else (map_of queryParams ''arr_iata'') ''CDG'');
          cached = map_of flightCaches cacheKey
      in if cached \<noteq> None \<and> cdg_clock E 0 - timestamp (the cached) < CACHE_MS then
           (\<lparr>statusCode = 200,
             headers = [(''Content-Type'', ''application/json''),
                        (''Cache-Control'', ''public, s-maxage=60'')],
             body = with_field (with_field (data (the cached)) ''cached'' (JBool True))
                      ''cacheAge'' (JNum (round_seconds (cdg_clock E 1 - timestamp (the cached))))\<rparr>,
            flightCaches)
         else if \<not> truthy (AVIATIONSTACK_API_KEY P) then
           (\<lparr>statusCode = 500, headers = [],
             body = JObj [(''error'', JStr ''No API key configured'')]\<rparr>,
            flightCaches)
         else
           (let arrIata = toUpperCase (or_else (map_of queryParams ''arr_iata'') ''CDG'')
            in case cdgFlights (jsLocaleCompare P) (random E)
                      (bucket E arrIata ''landed'') (bucket E arrIata ''active'')
                      (bucket E arrIata ''scheduled'') of
                 Inl err \<Rightarrow>
                   (\<lparr>statusCode = 500, headers = [],
                     body = JObj [(''error'', JStr (message err)), (''flights'', JArr [])]\<rparr>,
                    flightCaches)
               | Inr flights \<Rightarrow>
                   (let result =
                          JObj [(''flights'', JArr (map arrivalJson flights)),
                                (''meta'', JObj [(''totalFlights'', JNum (int (length flights))),
                                                 (''airport'', JStr ''CDG''),
                                                 (''timestamp'', JStr (isoTimestamp P))])]
                    in (\<lparr>statusCode = 200,
                         headers = [(''Content-Type'', ''application/json''),
                                    (''Cache-Control'', ''public, s-maxage=60'')],
                         body = result\<rparr>,
                        AList.update arrIata \<lparr>data = result, timestamp = cdg_clock E 2\<rparr>
                          flightCaches))))"

text \<open>
  Loading arrivals-cdg.js. The names that the handler function declares with \<open>const\<close>
  directly in its own scope are, in the order of the file: \<open>queryParams\<close> (line 8),
  \<open>cacheKey\<close> (line 9), \<open>cached\<close> (line 12), \<open>apiKey\<close> (line 21), \<open>queryParams\<close>
  (line 27) and \<open>arrIata\<close> (line 28); the declarations inside \<open>try\<close> and \<open>for\<close> are in
  scopes of their own. A scope that declares one name twice with \<open>const\<close> is an early
  error: the file is rejected when it is parsed, before its first statement runs, so
  \<open>require\<close> throws and no handler is exported.
\<close>

definition handlerScope :: "string list" where
  "handlerScope =
     [''queryParams'', ''cacheKey'', ''cached'', ''apiKey'', ''queryParams'', ''arrIata'']"

fun redeclared :: "string list \<Rightarrow> string list \<Rightarrow> string option" where
  "redeclared declared [] = None"
| "redeclared declared (ident # idents) =
     (if ident \<in> set declared then Some ident else redeclared (ident # declared) idents)"

definition earlyError :: "string list \<Rightarrow> js_error option" where
  "earlyError names =
     (case redeclared [] names of
        None \<Rightarrow> None
      | Some ident \<Rightarrow>
          Some (SyntaxError (''Identifier '' @ [CHR 0x27] @ ident @ [CHR 0x27]
                             @ '' has already been declared'')))"

text \<open>
  An invocation of the function as the repository ships it: the platform loads the
  module and calls the exported handler. The result is the error of the load, or the
  response and the cache object the handler leaves.
\<close>

definition cdgHandler ::
  "platform \<Rightarrow> cdg_env \<Rightarrow> (string \<times> string) list \<Rightarrow> (string \<times> cache_entry) list
    \<Rightarrow> js_error + (response \<times> (string \<times> cache_entry) list)" where
  "cdgHandler P E queryParams flightCaches =
     (case earlyError handlerScope of
        Some err \<Rightarrow> Inl err
      | None \<Rightarrow> Inr (cdgHandlerBody P E queryParams flightCaches))"

text \<open>
  Sample data: a platform with or without credentials, the platform that reads the long
  numeral, an environment in which the lookup service gives a one-letter country for the
  airport of the only flight, and feeds of the multi-status function: one with KL123
  landed and scheduled, one with a codeshare and another flight, one with a codeshare
  and a later flight of the same code.
\<close>

definition samplePlatform :: "string option \<Rightarrow> platform" where
  "samplePlatform key =
     \<lparr>SCHIPHOL_APP_ID = key, SCHIPHOL_APP_KEY = Some ''secret'',
      AVIATIONSTACK_API_KEY = key,
      nlTimeValue = 1000, nlHours = 6, nlMinutes = 10, todayDate = ''2024-03-20'',
      fromDateTime = ''2024-03-20T06:10:00'', toDateTime = ''2024-03-21T06:10:00'',
      queryTime = ''2024-03-20T06:10:00.000Z'', isoTimestamp = ''2024-03-20T05:10:00.000Z'',
      jsParseInt = (\<lambda>s. None), jsParseDate = (\<lambda>s. Some 5000),
      jsLocaleCompare = (\<lambda>a b. 0), jsStringify = (\<lambda>ps. ''{}'')\<rparr>"

definition badCountryEnv :: env where
  "badCountryEnv =
     \<lparr>clock = (\<lambda>k. 1000),
      airportsApi = (\<lambda>k code. ApiData
        [\<lparr>city_name = Str ''Paris'', country_iso2 = Str ''F'',
          airport_name = Str ''Charles de Gaulle''\<rparr>]),
      openFlights = (\<lambda>k. None),
      upstream = (\<lambda>k url params.
        if k = 0 then
          Response 200
            (Some [\<lparr>scheduleDate = Some ''2024-03-20'', scheduleTime = Some ''14:30:00'',
                    destination0 = Some ''Paris (CDG)'', cityInfo = None\<rparr>])
            None
        else Throws)\<rparr>"

definition infinitePlatform :: platform where
  "infinitePlatform =
     (samplePlatform (Some ''id''))
       \<lparr>jsParseInt := (\<lambda>s. if s = Some longNumeral then Some PosInfinity else None)\<rparr>"

definition statusFeed :: "raw_flight list \<Rightarrow> raw_flight list \<Rightarrow> raw_flight list \<Rightarrow> cdg_env" where
  "statusFeed landed active scheduled =
     \<lparr>cdg_clock = (\<lambda>k. 1000),
      flightsApi = (\<lambda>arrIata st.
        if st = ''landed'' then Some (map Some landed)
        else if st = ''active'' then Some (map Some active)
        else if st = ''scheduled'' then Some (map Some scheduled)
        else None),
      random = (\<lambda>i. ''0.5'')\<rparr>"

definition kl123Feed :: cdg_env where
  "kl123Feed =
     statusFeed [sampleFlight ''KL123'' False ''landed''] []
       [sampleFlight ''KL123'' False ''scheduled'']"



section \<open>Properties\<close>

lemma fromCodePoint_indicator_Some:
  "0 \<le> c \<Longrightarrow> c < 65536 \<Longrightarrow> fromCodePoint (indicator (Some c)) = Inr [0x1F1E6 + c - 65]"
  by (simp add: fromCodePoint_def indicator_def)

lemma charCodeAt_range:
  "charCodeAt s i = Some c \<Longrightarrow> 0 \<le> c \<and> c < 65536"
proof -
  assume h: "charCodeAt s i = Some c"
  then have "c = int (of_char (s ! i) :: nat)"
    by (auto simp: charCodeAt_def code_unit_def split: if_splits)
  moreover have "(of_char (s ! i) :: nat) < 65536"
    using nat_of_char_less_256 [of "s ! i"] by linarith
  ultimately show ?thesis by simp
qed

text \<open>
  C3 (as amended). \<open>getFlagEmoji("NL")\<close> is the two regional indicators N and L; an
  absent or empty country code gives the empty string; and a code of two or more ASCII
  characters is not validated: the result is the two code points \<open>0x1F1E6 + unit - 65\<close>
  of the first two units of the upper-cased code, whatever they are.
\<close>

theorem getFlagEmoji_spec:
  "getFlagEmoji (Some ''NL'') = Inr [0x1F1F3, 0x1F1F1]
   \<and> getFlagEmoji None = Inr []
   \<and> getFlagEmoji (Some '''') = Inr []
   \<and> (\<forall>c. 2 \<le> length c \<and> ascii c \<longrightarrow>
        getFlagEmoji (Some c) =
          Inr [0x1F1E6 + code_unit (toUpperCase c ! 0) - 65,
               0x1F1E6 + code_unit (toUpperCase c ! 1) - 65])"
proof (intro conjI allI impI)
  show "getFlagEmoji (Some ''NL'') = Inr [0x1F1F3, 0x1F1F1]"
    by (simp add: getFlagEmoji_def toUpperCase_def upper_char_def charCodeAt_def
        code_unit_def indicator_def fromCodePoint_def)
  show "getFlagEmoji None = Inr []"
    by (simp add: getFlagEmoji_def)
  show "getFlagEmoji (Some '''') = Inr []"
    by (simp add: getFlagEmoji_def)
next
  fix c :: string
  assume "2 \<le> length c \<and> ascii c"
  then have len: "2 \<le> length c" by simp
  let ?u = "toUpperCase c"
  have lu: "length ?u = length c" by (simp add: toUpperCase_def)
  have c0: "charCodeAt ?u 0 = Some (code_unit (?u ! 0))"
    and c1: "charCodeAt ?u 1 = Some (code_unit (?u ! 1))"
    using len lu by (auto simp: charCodeAt_def)
  have f0: "fromCodePoint (indicator (charCodeAt ?u 0)) = Inr [0x1F1E6 + code_unit (?u ! 0) - 65]"
    using charCodeAt_range [OF c0] by (simp only: c0 fromCodePoint_indicator_Some)
  have f1: "fromCodePoint (indicator (charCodeAt ?u 1)) = Inr [0x1F1E6 + code_unit (?u ! 1) - 65]"
    using charCodeAt_range [OF c1] by (simp only: c1 fromCodePoint_indicator_Some)
  have "truthy (Some c)" using len by (cases c) auto
  then show "getFlagEmoji (Some c) =
          Inr [0x1F1E6 + code_unit (?u ! 0) - 65, 0x1F1E6 + code_unit (?u ! 1) - 65]"
    unfolding getFlagEmoji_def Let_def option.sel f0 f1 by simp
qed

theorem getFlagEmoji_spec_witness:
  "getFlagEmoji (Some ''NL'') = Inr [0x1F1F3, 0x1F1F1]
   \<and> (2::nat) \<le> length ''de'' \<and> ascii ''de''
   \<and> getFlagEmoji (Some ''de'') = Inr [0x1F1E9, 0x1F1EA]"
proof -
  have len: "(2::nat) \<le> length ''de'' \<and> ascii ''de''" by (simp add: ascii_def)
  have "getFlagEmoji (Some ''de'') =
          Inr [0x1F1E6 + code_unit (toUpperCase ''de'' ! 0) - 65,
               0x1F1E6 + code_unit (toUpperCase ''de'' ! 1) - 65]"
    using getFlagEmoji_spec len by blast
  then have "getFlagEmoji (Some ''de'') = Inr [0x1F1E9, 0x1F1EA]"
    by (simp add: toUpperCase_def upper_char_def code_unit_def)
  with getFlagEmoji_spec len show ?thesis by blast
qed

text \<open>
  C3, the claim as stated fails: a one-unit code makes \<open>charCodeAt(1)\<close> \<open>NaN\<close> and
  \<open>String.fromCodePoint\<close> throws; a two-unit code that is no country code gives a
  non-empty string.
\<close>

theorem getFlagEmoji_invalid_counterexample:
  "getFlagEmoji (Some ''N'') = Inl (RangeError ''Invalid code point NaN'')
   \<and> getFlagEmoji (Some ''12'') = Inr [0x1F1D6, 0x1F1D7]"
  by (simp add: getFlagEmoji_def toUpperCase_def upper_char_def charCodeAt_def
      code_unit_def indicator_def fromCodePoint_def)

text \<open>
  C9. For a flight whose \<open>scheduleDate\<close> and \<open>scheduleTime\<close> are present and parse to the
  instant \<open>t\<close>, \<open>isFlightInFuture\<close> is true exactly when \<open>t\<close> is at or after
  \<open>now\<close> minus 15 minutes: true 10 minutes before \<open>now\<close>, false 20 minutes before.
\<close>

theorem isFlightInFuture_grace:
  assumes "scheduleDate f = Some d" and "d \<noteq> []"
    and "scheduleTime f = Some tm" and "tm \<noteq> []"
    and "parseDate (d @ ''T'' @ tm) = Some t"
  shows "(isFlightInFuture parseDate f now \<longleftrightarrow> now - 15 * 60 * 1000 \<le> t)
    \<and> (t = now - 10 * 60 * 1000 \<longrightarrow> isFlightInFuture parseDate f now)
    \<and> (t = now - 20 * 60 * 1000 \<longrightarrow> \<not> isFlightInFuture parseDate f now)"
  using assms by (auto simp: isFlightInFuture_def)

theorem isFlightInFuture_grace_witness:
  "isFlightInFuture (\<lambda>s. if s = ''2024-03-20T14:30:00'' then Some 1000000 else None)
     \<lparr>scheduleDate = Some ''2024-03-20'', scheduleTime = Some ''14:30:00'',
      destination0 = None, cityInfo = None\<rparr> 1600000
   \<and> \<not> isFlightInFuture (\<lambda>s. if s = ''2024-03-20T14:30:00'' then Some 1000000 else None)
     \<lparr>scheduleDate = Some ''2024-03-20'', scheduleTime = Some ''14:30:00'',
      destination0 = None, cityInfo = None\<rparr> 2200000"
proof -
  let ?P = "\<lambda>s. if s = ''2024-03-20T14:30:00'' then Some (1000000::int) else None"
  let ?F = "\<lparr>scheduleDate = Some ''2024-03-20'', scheduleTime = Some ''14:30:00'',
      destination0 = None, cityInfo = None\<rparr>"
  have p: "?P (''2024-03-20'' @ ''T'' @ ''14:30:00'') = Some 1000000" by simp
  have a: "isFlightInFuture ?P ?F 1600000"
    using isFlightInFuture_grace [of ?F "''2024-03-20''" "''14:30:00''" ?P 1000000 1600000, OF _ _ _ _ p]
    by simp
  have b: "\<not> isFlightInFuture ?P ?F 2200000"
    using isFlightInFuture_grace [of ?F "''2024-03-20''" "''14:30:00''" ?P 1000000 2200000, OF _ _ _ _ p]
    by simp
  from a b show ?thesis by blast
qed

subsection \<open>Deduplication in the multi-status function\<close>

lemma present_simps [simp]:
  "present [] = []"
  "present (None # xs) = present xs"
  "present (Some x # xs) = x # present xs"
  by (simp_all add: present_def map_filter_simps)

lemma set_present: "set (present xs) = {x. Some x \<in> set xs}"
  by (induction xs) (auto simp: present_def map_filter_simps split: option.splits)

lemma mset_insertBy: "mset (insertBy cmp x ys) = add_mset x (mset ys)"
  by (induction ys) auto

lemma mset_sortBy: "mset (sortBy cmp xs) = mset xs"
  by (induction xs) (auto simp: sortBy_def mset_insertBy)

lemma set_sortBy: "set (sortBy cmp xs) = set xs"
  using mset_sortBy [of cmp xs] by (metis set_mset_mset)

lemma flightKey_code: "flightCode f \<noteq> [] \<Longrightarrow> flightKey rnd f = flightCode f"
  by (auto simp: flightKey_def flightCode_def or_else_def split: option.splits if_splits)

lemma flightKey_nocode: "flightCode f = [] \<Longrightarrow> flightKey rnd f = rnd"
  by (auto simp: flightKey_def flightCode_def or_else_def split: option.splits if_splits)

lemma flightName_toRecord [simp]: "flightName (toRecord f) = flightCode f"
  by (simp add: toRecord_def Let_def)

lemma status_toRecord [simp]: "status (toRecord f) = or_else (r_flight_status f) ''scheduled''"
  by (simp add: toRecord_def Let_def)

lemma dedupLoop_mset:
  "dedupLoop rnd i seen acc raws = Inr out \<Longrightarrow>
   mset out \<subseteq># mset acc + mset (map toRecord (filter (\<lambda>f. \<not> codeshared f) (present raws)))"
proof (induction raws arbitrary: i seen acc)
  case Nil
  then show ?case by simp
next
  case (Cons a raws)
  show ?case
  proof (cases a)
    case None
    with Cons.prems show ?thesis by simp
  next
    case (Some f)
    show ?thesis
    proof (cases "flightKey (rnd i) f \<in> seen")
      case True
      with Cons.prems Some have "dedupLoop rnd (Suc i) seen acc raws = Inr out" by simp
      from Cons.IH [OF this] show ?thesis
        using Some by (auto intro: subset_mset.order_trans)
    next
      case False
      show ?thesis
      proof (cases "codeshared f")
        case True
        with Cons.prems Some False
        have "dedupLoop rnd (Suc i) (insert (flightKey (rnd i) f) seen) acc raws = Inr out"
          by simp
        from Cons.IH [OF this] show ?thesis using Some True by simp
      next
        case nc: False
        with Cons.prems Some False
        have "dedupLoop rnd (Suc i) (insert (flightKey (rnd i) f) seen) (acc @ [toRecord f]) raws
              = Inr out"
          by simp
        from Cons.IH [OF this] show ?thesis using Some nc by simp
      qed
    qed
  qed
qed

lemma dedupLoop_seen:
  "dedupLoop rnd i seen acc raws = Inr out \<Longrightarrow> K \<in> seen \<Longrightarrow> K \<noteq> [] \<Longrightarrow>
   filter (\<lambda>r. flightName r = K) out = filter (\<lambda>r. flightName r = K) acc"
proof (induction raws arbitrary: i seen acc)
  case Nil
  then show ?case by simp
next
  case (Cons a raws)
  show ?case
  proof (cases a)
    case None
    with Cons.prems show ?thesis by simp
  next
    case (Some f)
    let ?key = "flightKey (rnd i) f"
    show ?thesis
    proof (cases "?key \<in> seen")
      case True
      with Cons.prems Some have "dedupLoop rnd (Suc i) seen acc raws = Inr out" by simp
      from Cons.IH [OF this Cons.prems(2,3)] show ?thesis .
    next
      case False
      show ?thesis
      proof (cases "codeshared f")
        case True
        with Cons.prems Some False
        have "dedupLoop rnd (Suc i) (insert ?key seen) acc raws = Inr out" by simp
        from Cons.IH [OF this _ Cons.prems(3)] Cons.prems(2) show ?thesis by simp
      next
        case nc: False
        with Cons.prems Some False
        have run: "dedupLoop rnd (Suc i) (insert ?key seen) (acc @ [toRecord f]) raws = Inr out"
          by simp
        have "flightCode f \<noteq> K"
        proof
          assume "flightCode f = K"
          with Cons.prems(3) have "?key = K" by (simp add: flightKey_code)
          with False Cons.prems(2) show False by simp
        qed
        with Cons.IH [OF run _ Cons.prems(3)] Cons.prems(2) show ?thesis by simp
      qed
    qed
  qed
qed

lemma flightKey_neq:
  "flightCode g \<noteq> K \<Longrightarrow> rnd \<noteq> K \<Longrightarrow> flightKey rnd g \<noteq> K"
  by (cases "flightCode g = []") (simp_all add: flightKey_code flightKey_nocode)

lemma dedupLoop_first:
  "dedupLoop rnd i seen acc (pre @ Some f # post) = Inr out \<Longrightarrow>
   (\<And>g. Some g \<in> set pre \<Longrightarrow> flightCode g \<noteq> K) \<Longrightarrow> (\<And>j. rnd j \<noteq> K) \<Longrightarrow>
   K \<notin> seen \<Longrightarrow> K \<noteq> [] \<Longrightarrow> flightCode f = K \<Longrightarrow> \<not> codeshared f \<Longrightarrow>
   filter (\<lambda>r. flightName r = K) out = filter (\<lambda>r. flightName r = K) acc @ [toRecord f]"
proof (induction pre arbitrary: i seen acc)
  case Nil
  have key: "flightKey (rnd i) f = K" using Nil.prems by (simp add: flightKey_code)
  with Nil.prems
  have "dedupLoop rnd (Suc i) (insert K seen) (acc @ [toRecord f]) post = Inr out" by simp
  from dedupLoop_seen [OF this, of K] Nil.prems show ?case by simp
next
  case (Cons a pre)
  show ?case
  proof (cases a)
    case None
    with Cons.prems(1) show ?thesis by simp
  next
    case (Some g)
    let ?key = "flightKey (rnd i) g"
    have code: "flightCode g \<noteq> K" using Cons.prems(2) [of g] Some by simp
    then have key: "?key \<noteq> K" using Cons.prems(3) by (simp add: flightKey_neq)
    have pre: "\<And>h. Some h \<in> set pre \<Longrightarrow> flightCode h \<noteq> K" using Cons.prems(2) by simp
    show ?thesis
    proof (cases "?key \<in> seen")
      case True
      with Cons.prems(1) Some
      have "dedupLoop rnd (Suc i) seen acc (pre @ Some f # post) = Inr out" by simp
      from Cons.IH [OF this pre Cons.prems(3-7)] show ?thesis by simp
    next
      case False
      have notin: "K \<notin> insert ?key seen" using key Cons.prems(4) by auto
      show ?thesis
      proof (cases "codeshared g")
        case True
        with Cons.prems(1) Some False
        have "dedupLoop rnd (Suc i) (insert ?key seen) acc (pre @ Some f # post) = Inr out"
          by simp
        from Cons.IH [OF this pre Cons.prems(3) notin Cons.prems(5-7)] show ?thesis by simp
      next
        case nc: False
        with Cons.prems(1) Some False
        have "dedupLoop rnd (Suc i) (insert ?key seen) (acc @ [toRecord g]) (pre @ Some f # post)
              = Inr out"
          by simp
        from Cons.IH [OF this pre Cons.prems(3) notin Cons.prems(5-7)] code
        show ?thesis by simp
      qed
    qed
  qed
qed

lemma dedupLoop_codeshare_first:
  "dedupLoop rnd i seen acc (pre @ Some c # post) = Inr out \<Longrightarrow>
   (\<And>g. Some g \<in> set pre \<Longrightarrow> flightCode g \<noteq> K) \<Longrightarrow>
   K \<noteq> [] \<Longrightarrow> flightCode c = K \<Longrightarrow> codeshared c \<Longrightarrow>
   filter (\<lambda>r. flightName r = K) out = filter (\<lambda>r. flightName r = K) acc"
proof (induction pre arbitrary: i seen acc)
  case Nil
  have key: "flightKey (rnd i) c = K" using Nil.prems by (simp add: flightKey_code)
  show ?case
  proof (cases "K \<in> seen")
    case True
    with Nil.prems key have "dedupLoop rnd (Suc i) seen acc post = Inr out" by simp
    from dedupLoop_seen [OF this True Nil.prems(3)] show ?thesis .
  next
    case False
    with Nil.prems key have "dedupLoop rnd (Suc i) (insert K seen) acc post = Inr out" by simp
    from dedupLoop_seen [OF this _ Nil.prems(3)] show ?thesis by simp
  qed
next
  case (Cons a pre)
  show ?case
  proof (cases a)
    case None
    with Cons.prems(1) show ?thesis by simp
  next
    case (Some g)
    let ?key = "flightKey (rnd i) g"
    have code: "flightCode g \<noteq> K" using Cons.prems(2) [of g] Some by simp
    have pre: "\<And>h. Some h \<in> set pre \<Longrightarrow> flightCode h \<noteq> K" using Cons.prems(2) by simp
    show ?thesis
    proof (cases "?key \<in> seen")
      case True
      with Cons.prems(1) Some
      have "dedupLoop rnd (Suc i) seen acc (pre @ Some c # post) = Inr out" by simp
      from Cons.IH [OF this pre Cons.prems(3-5)] show ?thesis by simp
    next
      case False
      show ?thesis
      proof (cases "codeshared g")
        case True
        with Cons.prems(1) Some False
        have "dedupLoop rnd (Suc i) (insert ?key seen) acc (pre @ Some c # post) = Inr out"
          by simp
        from Cons.IH [OF this pre Cons.prems(3-5)] show ?thesis by simp
      next
        case nc: False
        with Cons.prems(1) Some False
        have "dedupLoop rnd (Suc i) (insert ?key seen) (acc @ [toRecord g]) (pre @ Some c # post)
              = Inr out"
          by simp
        from Cons.IH [OF this pre Cons.prems(3-5)] code show ?thesis by simp
      qed
    qed
  qed
qed

lemma dedupLoop_distinct:
  "dedupLoop rnd i seen acc raws = Inr out \<Longrightarrow>
   distinct (filter (\<lambda>n. n \<noteq> []) (map flightName acc)) \<Longrightarrow>
   set (filter (\<lambda>n. n \<noteq> []) (map flightName acc)) \<subseteq> seen \<Longrightarrow>
   distinct (filter (\<lambda>n. n \<noteq> []) (map flightName out))"
proof (induction raws arbitrary: i seen acc)
  case Nil
  then show ?case by simp
next
  case (Cons a raws)
  show ?case
  proof (cases a)
    case None
    with Cons.prems show ?thesis by simp
  next
    case (Some f)
    let ?key = "flightKey (rnd i) f"
    show ?thesis
    proof (cases "?key \<in> seen")
      case True
      with Cons.prems Some have "dedupLoop rnd (Suc i) seen acc raws = Inr out" by simp
      from Cons.IH [OF this Cons.prems(2,3)] show ?thesis .
    next
      case False
      show ?thesis
      proof (cases "codeshared f")
        case True
        with Cons.prems Some False
        have "dedupLoop rnd (Suc i) (insert ?key seen) acc raws = Inr out" by simp
        from Cons.IH [OF this Cons.prems(2)] Cons.prems(3) show ?thesis by auto
      next
        case nc: False
        with Cons.prems Some False
        have run: "dedupLoop rnd (Suc i) (insert ?key seen) (acc @ [toRecord f]) raws = Inr out"
          by simp
        have d: "distinct (filter (\<lambda>n. n \<noteq> []) (map flightName (acc @ [toRecord f])))"
          using Cons.prems(2,3) False by (auto simp: flightKey_code)
        have s: "set (filter (\<lambda>n. n \<noteq> []) (map flightName (acc @ [toRecord f])))
                 \<subseteq> insert ?key seen"
          using Cons.prems(3) by (auto simp: flightKey_code)
        from Cons.IH [OF run d s] show ?thesis .
      qed
    qed
  qed
qed

lemma filter_sortBy_single:
  "filter P xs = [x] \<Longrightarrow> filter P (sortBy cmp xs) = [x]"
proof -
  assume "filter P xs = [x]"
  then have "mset (filter P (sortBy cmp xs)) = {#x#}"
    by (metis mset_filter mset_sortBy mset.simps(1,2))
  then show ?thesis by (simp only: mset_single_iff)
qed

lemma sampleFlight_simps [simp]:
  "code \<noteq> [] \<Longrightarrow> flightCode (sampleFlight code cs st) = code"
  "code \<noteq> [] \<Longrightarrow> flightKey rnd (sampleFlight code cs st) = code"
  "codeshared (sampleFlight code cs st) = cs"
  "r_flight_status (sampleFlight code cs st) = Some st"
  by (simp_all add: sampleFlight_def flightCode_def flightKey_def codeshared_def or_else_def
      opt_field_def)

text \<open>
  What lines 44 to 90 compute from the three arrays, read as statements by themselves;
  whether the function that holds them is ever called is the subject of the next
  subsection. The landed array comes first in \<open>allRaw\<close> and the first sighting of a flight
  code wins: for a landed flight and a scheduled flight that both carry the code KL123,
  the landed one not being a codeshare, the list is exactly the record of the landed
  flight. The non-empty flight codes of the list are pairwise distinct, and a code whose
  first sighting in \<open>allRaw\<close> is not a codeshare is represented by exactly the record of
  that first sighting (no random key being equal to the code).
\<close>

lemma cdgFlights_first_sighting:
  "(flightCode f = ''KL123'' \<and> flightCode g = ''KL123'' \<and> \<not> codeshared f
      \<and> r_flight_status f = Some ''landed'' \<longrightarrow>
      cdgFlights cmp rnd [Some f] [] [Some g] = Inr [toRecord f]
      \<and> flightName (toRecord f) = ''KL123'' \<and> status (toRecord f) = ''landed'')
   \<and> (\<forall>out. cdgFlights cmp rnd landed active scheduled = Inr out \<longrightarrow>
        distinct (filter (\<lambda>n. n \<noteq> []) (map flightName out)))
   \<and> (\<forall>out pre post h K.
        cdgFlights cmp rnd landed active scheduled = Inr out
        \<and> landed @ active @ scheduled = pre @ Some h # post
        \<and> (\<forall>g. Some g \<in> set pre \<longrightarrow> flightCode g \<noteq> K) \<and> (\<forall>j. rnd j \<noteq> K)
        \<and> K \<noteq> [] \<and> flightCode h = K \<and> \<not> codeshared h \<longrightarrow>
        filter (\<lambda>r. flightName r = K) out = [toRecord h])"
proof (intro conjI allI impI)
  assume h: "flightCode f = ''KL123'' \<and> flightCode g = ''KL123'' \<and> \<not> codeshared f
      \<and> r_flight_status f = Some ''landed''"
  then have kf: "flightKey (rnd 0) f = ''KL123''" and kg: "flightKey (rnd (Suc 0)) g = ''KL123''"
    by (simp_all add: flightKey_code)
  from h kf kg show "cdgFlights cmp rnd [Some f] [] [Some g] = Inr [toRecord f]"
    by (simp add: cdgFlights_def sortBy_def)
  from h show "flightName (toRecord f) = ''KL123''" by simp
  from h show "status (toRecord f) = ''landed''" by (simp add: or_else_def)
next
  fix out
  assume "cdgFlights cmp rnd landed active scheduled = Inr out"
  then obtain fl where run: "dedupLoop rnd 0 {} [] (landed @ active @ scheduled) = Inr fl"
    and out: "out = sortBy (\<lambda>a b. cmp (scheduleDateTime a) (scheduleDateTime b)) fl"
    by (auto simp: cdgFlights_def Let_def split: sum.splits)
  have "distinct (filter (\<lambda>n. n \<noteq> []) (map flightName fl))"
    using dedupLoop_distinct [OF run] by simp
  moreover have "mset (filter (\<lambda>n. n \<noteq> []) (map flightName out))
      = mset (filter (\<lambda>n. n \<noteq> []) (map flightName fl))"
    by (simp add: out mset_sortBy)
  ultimately show "distinct (filter (\<lambda>n. n \<noteq> []) (map flightName out))"
    by (metis mset_eq_imp_distinct_iff)
next
  fix out pre post h K
  assume a: "cdgFlights cmp rnd landed active scheduled = Inr out
        \<and> landed @ active @ scheduled = pre @ Some h # post
        \<and> (\<forall>g. Some g \<in> set pre \<longrightarrow> flightCode g \<noteq> K) \<and> (\<forall>j. rnd j \<noteq> K)
        \<and> K \<noteq> [] \<and> flightCode h = K \<and> \<not> codeshared h"
  then obtain fl where run: "dedupLoop rnd 0 {} [] (pre @ Some h # post) = Inr fl"
    and out: "out = sortBy (\<lambda>a b. cmp (scheduleDateTime a) (scheduleDateTime b)) fl"
    by (auto simp: cdgFlights_def Let_def split: sum.splits)
  have "filter (\<lambda>r. flightName r = K) fl = filter (\<lambda>r. flightName r = K) [] @ [toRecord h]"
    using a by (intro dedupLoop_first [OF run]) auto
  then show "filter (\<lambda>r. flightName r = K) out = [toRecord h]"
    by (simp add: out filter_sortBy_single)
qed

text \<open>
  The list holds no record of a raw flight marked as a codeshare: as a multiset it is
  contained in the records of the raw flights that are not marked.
\<close>

lemma cdgFlights_no_codeshare:
  assumes "cdgFlights cmp rnd landed active scheduled = Inr out"
  shows "mset out \<subseteq>#
           mset (map toRecord
             (filter (\<lambda>f. \<not> codeshared f) (present (landed @ active @ scheduled))))
    \<and> (\<forall>r \<in> set out.
          \<exists>f. Some f \<in> set (landed @ active @ scheduled) \<and> \<not> codeshared f \<and> r = toRecord f)"
proof -
  from assms obtain fl where run: "dedupLoop rnd 0 {} [] (landed @ active @ scheduled) = Inr fl"
    and out: "out = sortBy (\<lambda>a b. cmp (scheduleDateTime a) (scheduleDateTime b)) fl"
    by (auto simp: cdgFlights_def Let_def split: sum.splits)
  let ?ok = "map toRecord (filter (\<lambda>f. \<not> codeshared f) (present (landed @ active @ scheduled)))"
  have sub: "mset out \<subseteq># mset ?ok"
    using dedupLoop_mset [OF run] by (simp add: out mset_sortBy)
  have "set out \<subseteq> set ?ok"
    using set_mset_mono [OF sub] by simp
  then have "\<forall>r \<in> set out.
          \<exists>f. Some f \<in> set (landed @ active @ scheduled) \<and> \<not> codeshared f \<and> r = toRecord f"
    by (auto simp: set_present)
  with sub show ?thesis by blast
qed

text \<open>
  The key is added to \<open>seen\<close> before the codeshare check, so a codeshare whose key is
  new uses the key up. When the first record of \<open>allRaw\<close> that carries the flight code
  \<open>K\<close> is a codeshare, the list has no record with code \<open>K\<close>; a record with that code
  that comes before the codeshare is kept, as in the second lemma.
\<close>

lemma cdgFlights_codeshare_first:
  assumes "cdgFlights cmp rnd landed active scheduled = Inr out"
    and "landed @ active @ scheduled = pre @ Some c # post"
    and "\<forall>g. Some g \<in> set pre \<longrightarrow> flightCode g \<noteq> K"
    and "K \<noteq> []" and "flightCode c = K" and "codeshared c"
  shows "(\<forall>i seen acc. flightKey (rnd i) c \<notin> seen \<longrightarrow>
            dedupLoop rnd i seen acc (Some c # post)
            = dedupLoop rnd (Suc i) (insert (flightKey (rnd i) c) seen) acc post)
    \<and> (\<forall>r \<in> set out. flightName r \<noteq> K)"
proof -
  from assms(1,2) obtain fl where run: "dedupLoop rnd 0 {} [] (pre @ Some c # post) = Inr fl"
    and out: "out = sortBy (\<lambda>a b. cmp (scheduleDateTime a) (scheduleDateTime b)) fl"
    by (auto simp: cdgFlights_def Let_def split: sum.splits)
  have "filter (\<lambda>r. flightName r = K) fl = filter (\<lambda>r. flightName r = K) []"
    using assms(3-6) by (intro dedupLoop_codeshare_first [OF run]) auto
  then have "\<forall>r \<in> set fl. flightName r \<noteq> K"
    by (simp add: filter_empty_conv)
  then have "\<forall>r \<in> set out. flightName r \<noteq> K"
    by (simp add: out set_sortBy)
  moreover have "\<forall>i seen acc. flightKey (rnd i) c \<notin> seen \<longrightarrow>
            dedupLoop rnd i seen acc (Some c # post)
            = dedupLoop rnd (Suc i) (insert (flightKey (rnd i) c) seen) acc post"
    using assms(6) by simp
  ultimately show ?thesis by blast
qed

lemma cdgFlights_codeshare_later:
  "codeshared (sampleFlight ''KL123'' True ''active'')
   \<and> flightCode (sampleFlight ''KL123'' True ''active'') = ''KL123''
   \<and> \<not> codeshared (sampleFlight ''KL123'' False ''scheduled'')
   \<and> flightCode (sampleFlight ''KL123'' False ''scheduled'') = ''KL123''
   \<and> cdgFlights (\<lambda>a b. 0) (\<lambda>i. ''0.5'')
       [Some (sampleFlight ''KL123'' False ''landed'')]
       [Some (sampleFlight ''KL123'' True ''active'')]
       [Some (sampleFlight ''KL123'' False ''scheduled'')]
     = Inr [toRecord (sampleFlight ''KL123'' False ''landed'')]
   \<and> flightName (toRecord (sampleFlight ''KL123'' False ''landed'')) = ''KL123''"
  by (simp add: cdgFlights_def sortBy_def)

subsection \<open>Loading the multi-status function\<close>

lemma handlerScope_redeclared:
  "earlyError handlerScope
   = Some (SyntaxError ''Identifier 'queryParams' has already been declared'')"
  by (simp add: earlyError_def handlerScope_def)

lemma cdgHandler_load_error:
  "cdgHandler P E queryParams flightCaches
   = Inl (SyntaxError ''Identifier 'queryParams' has already been declared'')"
  by (simp add: cdgHandler_def handlerScope_redeclared)

lemma statusFeed_buckets [simp]:
  "bucket (statusFeed landed active scheduled) arrIata ''landed'' = map Some landed"
  "bucket (statusFeed landed active scheduled) arrIata ''active'' = map Some active"
  "bucket (statusFeed landed active scheduled) arrIata ''scheduled'' = map Some scheduled"
  "random (statusFeed landed active scheduled) = (\<lambda>i. ''0.5'')"
  by (simp_all add: bucket_def statusFeed_def)

text \<open>
  C4. A request to the multi-status function, with the API key configured and an empty
  cache, for which the flights service reports KL123 once as landed and once as
  scheduled. The merged list should hold one record for KL123, with status landed, and
  lines 44 to 90 compute exactly that from the two arrays. The function as shipped gives
  no list: the handler declares \<open>queryParams\<close> twice in one scope, so loading the file
  fails with a SyntaxError and the invocation ends in that error.
\<close>

theorem cdg_first_sighting_not_served:
  "cdgHandler (samplePlatform (Some ''key'')) kl123Feed [] []
     = Inl (SyntaxError ''Identifier 'queryParams' has already been declared'')
   \<and> cdgFlights (\<lambda>a b. 0) (random kl123Feed) (bucket kl123Feed ''CDG'' ''landed'')
       (bucket kl123Feed ''CDG'' ''active'') (bucket kl123Feed ''CDG'' ''scheduled'')
     = Inr [toRecord (sampleFlight ''KL123'' False ''landed'')]
   \<and> status (toRecord (sampleFlight ''KL123'' False ''landed'')) = ''landed''"
  by (simp add: cdgHandler_load_error kl123Feed_def cdgFlights_def sortBy_def or_else_def)



subsection \<open>Airport metadata\<close>

lemma apiCalls_step [simp]: "apiCallsCount (step s) = apiCallsCount s"
  by (simp add: step_def)

lemma fetchOpenFlightsData_calls [simp]:
  "apiCallsCount (fetchOpenFlightsData E s) = apiCallsCount s"
  by (simp add: fetchOpenFlightsData_def Let_def split: option.splits)

lemma fetchAirportData_calls:
  "apiCallsCount s \<le> MAX_API_CALLS \<Longrightarrow>
   apiCallsCount (snd (fetchAirportData E code s)) \<le> MAX_API_CALLS"
  by (auto simp: fetchAirportData_def fallbackLookup_def Let_def
      split: api_result.splits list.splits)

lemma fold_fetchAirportData_calls:
  "apiCallsCount s \<le> MAX_API_CALLS \<Longrightarrow>
   apiCallsCount (fold (\<lambda>code s'. snd (fetchAirportData E code s')) codes s) \<le> MAX_API_CALLS"
  by (induction codes arbitrary: s) (simp_all add: fetchAirportData_calls)

text \<open>
  C7. \<open>batchFetchAirportData\<close> keeps the call counter within the budget: if
  \<open>apiCallsCount\<close> is at most \<open>MAX_API_CALLS\<close> (90) before, it is at most 90 after, for
  every list of codes, every state of the caches and every behaviour of the services.
\<close>

theorem batchFetchAirportData_budget:
  assumes "apiCallsCount s \<le> MAX_API_CALLS"
  shows "apiCallsCount (batchFetchAirportData E iataCodes s) \<le> MAX_API_CALLS
    \<and> MAX_API_CALLS = 90"
proof
  show "apiCallsCount (batchFetchAirportData E iataCodes s) \<le> MAX_API_CALLS"
    using assms by (simp add: batchFetchAirportData_def Let_def fold_fetchAirportData_calls)
  show "MAX_API_CALLS = 90" by (simp add: MAX_API_CALLS_def)
qed

lemma dom_storeAirports:
  "fst ` set (storeAirports as c) = fst ` set c \<union> ds_iata ` set as"
proof (induction as arbitrary: c)
  case Nil
  then show ?case by (simp add: storeAirports_def)
next
  case (Cons a as)
  have "storeAirports (a # as) c =
      storeAirports as (AList.update (ds_iata a)
        \<lparr>city = Str (ds_city a), country = Str (ds_country a), name = Str (ds_name a),
         source = Undefined\<rparr> c)"
    by (simp add: storeAirports_def)
  then show ?case
    using Cons.IH by (auto simp: dom_update [unfolded dom_map_of_conv_image_fst])
qed

lemma map_of_defined: "(map_of al k \<noteq> None) = (k \<in> fst ` set al)"
  by (simp add: map_of_eq_None_iff)

lemma fetchOpenFlightsData_keeps:
  "map_of (airportCache s) code \<noteq> None \<Longrightarrow>
   map_of (airportCache (fetchOpenFlightsData E s)) code \<noteq> None"
  unfolding map_of_defined
  by (auto simp: fetchOpenFlightsData_def Let_def step_def dom_storeAirports
      split: option.splits)

lemma fetchOpenFlightsData_loads:
  assumes "openFlights E (Suc (tick s)) = Some text"
    and "\<exists>a \<in> set (datasetAirports text). ds_iata a = code"
    and "airportCache s = [] \<or> \<not> stamped (lastCacheUpdate s)
         \<or> clock E (tick s) - the (lastCacheUpdate s) \<ge> CACHE_DURATION"
  shows "map_of (airportCache (fetchOpenFlightsData E s)) code \<noteq> None"
proof -
  have "airportCache (fetchOpenFlightsData E s)
      = storeAirports (datasetAirports text) (airportCache s)"
    using assms(1,3) by (auto simp: fetchOpenFlightsData_def Let_def step_def)
  then show ?thesis
    unfolding map_of_defined using assms(2) by (auto simp: dom_storeAirports)
qed

lemma fetchOpenFlightsData_skips:
  assumes "airportCache s \<noteq> []" and "stamped (lastCacheUpdate s)"
    and "clock E (tick s) - the (lastCacheUpdate s) < CACHE_DURATION"
  shows "airportCache (fetchOpenFlightsData E s) = airportCache s"
  using assms by (auto simp: fetchOpenFlightsData_def Let_def step_def)

text \<open>
  With the call budget exhausted and the dataset downloadable, a code that the loader
  reads from the dataset (a line whose fifth comma-separated part has three characters
  once its quotes are removed) resolves to metadata when the cache already holds the
  code, or the cache is empty, or it was never stamped, or it is older than
  \<open>CACHE_DURATION\<close>. When the cache is non-empty, stamped and fresh and lacks the code,
  the bulk load is skipped and the result is absent, whatever the dataset holds. The
  indices are those of the call: \<open>tick s + 1\<close> for the clock reading of the guard and
  \<open>tick s + 2\<close> for the download.
\<close>

lemma fetchAirportData_exhausted:
  assumes "apiCallsCount s \<ge> MAX_API_CALLS"
    and "openFlights E (tick s + 2) = Some text"
    and "\<exists>a \<in> set (datasetAirports text). ds_iata a = code"
  shows "(map_of (airportCache s) code \<noteq> None \<or> airportCache s = []
          \<or> \<not> stamped (lastCacheUpdate s)
          \<or> clock E (tick s + 1) - the (lastCacheUpdate s) \<ge> CACHE_DURATION
          \<longrightarrow> fst (fetchAirportData E code s) \<noteq> None)
    \<and> (map_of (airportCache s) code = None \<and> airportCache s \<noteq> []
          \<and> stamped (lastCacheUpdate s)
          \<and> clock E (tick s + 1) - the (lastCacheUpdate s) < CACHE_DURATION
          \<longrightarrow> fst (fetchAirportData E code s) = None)"
proof (intro conjI impI)
  assume c: "map_of (airportCache s) code \<noteq> None \<or> airportCache s = []
          \<or> \<not> stamped (lastCacheUpdate s)
          \<or> clock E (tick s + 1) - the (lastCacheUpdate s) \<ge> CACHE_DURATION"
  let ?s1 = "step s"
  have s1: "airportCache ?s1 = airportCache s" "lastCacheUpdate ?s1 = lastCacheUpdate s"
    "apiCallsCount ?s1 = apiCallsCount s" "tick ?s1 = Suc (tick s)"
    by (simp_all add: step_def)
  show "fst (fetchAirportData E code s) \<noteq> None"
  proof (cases "map_of (airportCache s) code \<noteq> None")
    case True
    then have "map_of (airportCache (fetchOpenFlightsData E ?s1)) code \<noteq> None"
      by (intro fetchOpenFlightsData_keeps) (simp add: s1)
    with True assms(1) show ?thesis
      by (auto simp: fetchAirportData_def fallbackLookup_def Let_def s1)
  next
    case False
    with c have guard: "airportCache ?s1 = [] \<or> \<not> stamped (lastCacheUpdate ?s1)
         \<or> clock E (tick ?s1) - the (lastCacheUpdate ?s1) \<ge> CACHE_DURATION"
      by (auto simp: s1)
    have load: "openFlights E (Suc (tick ?s1)) = Some text"
      using assms(2) by (simp add: s1)
    from fetchOpenFlightsData_loads [OF load assms(3) guard]
    have "map_of (airportCache (fetchOpenFlightsData E ?s1)) code \<noteq> None" .
    with False assms(1) show ?thesis
      by (auto simp: fetchAirportData_def fallbackLookup_def Let_def s1)
  qed
next
  assume c: "map_of (airportCache s) code = None \<and> airportCache s \<noteq> []
          \<and> stamped (lastCacheUpdate s)
          \<and> clock E (tick s + 1) - the (lastCacheUpdate s) < CACHE_DURATION"
  let ?s1 = "step s"
  have s1: "airportCache ?s1 = airportCache s" "lastCacheUpdate ?s1 = lastCacheUpdate s"
    "apiCallsCount ?s1 = apiCallsCount s" "tick ?s1 = Suc (tick s)"
    by (simp_all add: step_def)
  have "airportCache (fetchOpenFlightsData E ?s1) = airportCache ?s1"
    using c by (intro fetchOpenFlightsData_skips) (simp_all add: s1)
  with c assms(1) show "fst (fetchAirportData E code s) = None"
    by (simp add: fetchAirportData_def fallbackLookup_def Let_def s1)
qed


theorem batchFetchAirportData_budget_witness:
  "apiCallsCount (batchFetchAirportData sampleEnv [''AMS'', ''LHR''] (sampleState [] None 88))
     = 90
   \<and> apiCallsCount (batchFetchAirportData sampleEnv [''AMS'', ''LHR''] (sampleState [] None 88))
     \<le> MAX_API_CALLS"
proof -
  have "apiCallsCount (sampleState [] None 88) \<le> MAX_API_CALLS"
    by (simp add: sampleState_def MAX_API_CALLS_def)
  from batchFetchAirportData_budget [OF this, of sampleEnv "[''AMS'', ''LHR'']"]
  have le: "apiCallsCount (batchFetchAirportData sampleEnv [''AMS'', ''LHR'']
      (sampleState [] None 88)) \<le> MAX_API_CALLS"
    by simp
  have "apiCallsCount (batchFetchAirportData sampleEnv [''AMS'', ''LHR'']
      (sampleState [] None 88)) = 90"
    by (simp add: batchFetchAirportData_def fetchAirportData_def Let_def step_def
        sampleState_def sampleEnv_def stamped_def CACHE_DURATION_def MAX_API_CALLS_def)
  with le show ?thesis by blast
qed

subsection \<open>The pagination loop\<close>

lemma bitlen_bound: "0 \<le> n \<Longrightarrow> n < 2 ^ k \<Longrightarrow> bitlen n \<le> k"
proof (induction k arbitrary: n)
  case 0
  then have "n = 0" by simp
  then show ?case by (simp add: bitlen.simps)
next
  case (Suc k)
  show ?case
  proof (cases "n \<le> 0")
    case True
    then show ?thesis by (simp add: bitlen.simps)
  next
    case False
    with Suc.prems have "0 \<le> n div 2" "n div 2 < 2 ^ k" by auto
    from Suc.IH [OF this] False show ?thesis by (subst bitlen.simps) simp
  qed
qed

lemma nearest_exact: "\<bar>x\<bar> \<le> 2 ^ 53 \<Longrightarrow> nearest x = x"
proof (cases "\<bar>x\<bar> = 2 ^ 53")
  case True
  have a: "nearest (2 ^ 53) = 2 ^ 53" by code_simp
  have b: "nearest (- (2 ^ 53)) = - (2 ^ 53)" by code_simp
  from True have "x = 2 ^ 53 \<or> x = - (2 ^ 53)" by auto
  with a b show ?thesis by auto
next
  case False
  assume "\<bar>x\<bar> \<le> 2 ^ 53"
  with False have "\<bar>x\<bar> < 2 ^ 53" by simp
  then have "bitlen \<bar>x\<bar> \<le> 53" by (intro bitlen_bound) simp_all
  then show ?thesis by (simp add: nearest_def Let_def)
qed

lemma loopBody_Continue:
  "loopBody feed parseDate nlTime maxPages st = Continue st' \<Longrightarrow>
   pageCount st' = increment (pageCount st) \<and> fetches st' = Suc (fetches st)
   \<and> hasMore st' = hasMore st \<and> \<not> reached (pageCount st) maxPages"
  by (auto simp: loopBody_def Let_def split: if_splits)

lemma loopBody_Break:
  "loopBody feed parseDate nlTime maxPages st = Break st' \<Longrightarrow>
   fetches st' = Suc (fetches st)"
  by (auto simp: loopBody_def Let_def split: if_splits)

lemma paginate_fetches:
  "0 \<le> pageCount st \<Longrightarrow> k \<le> 2 ^ 53 \<Longrightarrow>
   \<exists>st'. paginate feed parseDate nlTime (Finite k) st = Some st'
     \<and> int (fetches st') \<le> int (fetches st) + max 0 (k - pageCount st)"
proof (induction "nat (k - pageCount st)" arbitrary: st)
  case 0
  then have "\<not> below (pageCount st) (Finite k)" by simp
  then have "paginate feed parseDate nlTime (Finite k) st = Some st"
    by (subst paginate.simps) simp
  then show ?case by (simp add: max_def)
next
  case (Suc n)
  show ?case
  proof (cases "hasMore st")
    case False
    then have "paginate feed parseDate nlTime (Finite k) st = Some st"
      by (subst paginate.simps) simp
    then show ?thesis by (simp add: max_def)
  next
    case True
    from Suc.hyps(2) have lt: "pageCount st < k" by simp
    show ?thesis
    proof (cases "loopBody feed parseDate nlTime (Finite k) st")
      case (Break st')
      with True lt have "paginate feed parseDate nlTime (Finite k) st = Some st'"
        by (subst paginate.simps) simp
      with loopBody_Break [OF Break] lt show ?thesis by (simp add: max_def)
    next
      case (Continue st')
      with True lt have eq: "paginate feed parseDate nlTime (Finite k) st
          = paginate feed parseDate nlTime (Finite k) st'"
        by (subst paginate.simps) simp
      from lt Suc.prems have "\<bar>pageCount st + 1\<bar> \<le> 2 ^ 53" by simp
      then have inc: "increment (pageCount st) = pageCount st + 1"
        by (simp add: increment_def nearest_exact)
      with loopBody_Continue [OF Continue]
      have pc: "pageCount st' = pageCount st + 1" and fe: "fetches st' = Suc (fetches st)"
        by simp_all
      have "n = nat (k - pageCount st')" using Suc.hyps(2) pc by simp
      moreover have "0 \<le> pageCount st'" using pc Suc.prems by simp
      ultimately obtain st'' where
        run: "paginate feed parseDate nlTime (Finite k) st' = Some st''"
        and le: "int (fetches st'') \<le> int (fetches st') + max 0 (k - pageCount st')"
        using Suc.hyps(1) Suc.prems(2) by blast
      from run le eq pc fe lt show ?thesis by (simp add: max_def)
    qed
  qed
qed

lemma loopBody_endless:
  "\<exists>st'. loopBody endlessFeed (\<lambda>s. Some 5000) 1000 PosInfinity st = Continue st'
     \<and> hasMore st' = hasMore st"
  by (simp add: loopBody_def fetchPage_def endlessFeed_def isFlightInFuture_def Let_def
      MAX_PAST_PAGES_def)

lemma paginate_endless_aux:
  "paginate feed parseDate nlTime maxPages st = Some y \<Longrightarrow>
   feed = endlessFeed \<Longrightarrow> parseDate = (\<lambda>s. Some 5000) \<Longrightarrow> nlTime = 1000 \<Longrightarrow>
   maxPages = PosInfinity \<Longrightarrow> hasMore st \<Longrightarrow> False"
proof (induction rule: paginate.raw_induct [rotated 1, consumes 1])
  case (1 paginate feed parseDate nlTime maxPages st y)
  from loopBody_endless [of st] obtain st' where
    c: "loopBody endlessFeed (\<lambda>s. Some 5000) 1000 PosInfinity st = Continue st'"
    and h: "hasMore st' = hasMore st" by blast
  from 1(2) c 1(3-7) have "paginate feed parseDate nlTime maxPages st' = Some y" by simp
  from 1(1) [OF this 1(3-6)] h 1(7) show ?case by simp
qed

lemma paginate_endless:
  "paginate endlessFeed (\<lambda>s. Some 5000) 1000 PosInfinity (initialLoop url params) = None"
proof (cases "paginate endlessFeed (\<lambda>s. Some 5000) 1000 PosInfinity (initialLoop url params)")
  case None then show ?thesis .
next
  case (Some y)
  from paginate_endless_aux [OF Some] show ?thesis by (simp add: initialLoop_def)
qed

lemma endless_three:
  "paginate endlessFeed (\<lambda>s. Some 5000) 1000 (Finite 3) (initialLoop ''u'' [])
   = Some \<lparr>allFlights =
             [\<lparr>scheduleDate = Some ''2024-03-20'', scheduleTime = Some ''14:30:00'',
               destination0 = None, cityInfo = None\<rparr>,
              \<lparr>scheduleDate = Some ''2024-03-20'', scheduleTime = Some ''14:30:00'',
               destination0 = None, cityInfo = None\<rparr>,
              \<lparr>scheduleDate = Some ''2024-03-20'', scheduleTime = Some ''14:30:00'',
               destination0 = None, cityInfo = None\<rparr>],
           pageCount = 2, totalFlightsSeen = 3,
           currentUrl = Some ''https://api.schiphol.nl/public-flights/flights?page=next'',
           currentParams = None, hasMore = True, pastFlightPagesCount = 0, fetches = 3\<rparr>"
  apply (subst paginate.simps)
  apply (simp add: loopBody_def fetchPage_def endlessFeed_def initialLoop_def
        isFlightInFuture_def Let_def MAX_PAST_PAGES_def increment_def nearest_exact)
  apply (subst paginate.simps)
  apply (simp add: loopBody_def fetchPage_def endlessFeed_def
        isFlightInFuture_def Let_def MAX_PAST_PAGES_def increment_def nearest_exact)
  apply (subst paginate.simps)
  apply (simp add: loopBody_def fetchPage_def endlessFeed_def
        isFlightInFuture_def Let_def MAX_PAST_PAGES_def increment_def nearest_exact)
  done

text \<open>
  C5 (as amended). For a finite \<open>maxPages\<close> of at most \<open>2 ^ 53\<close>, whatever the feed
  answers (also when every page names a next page), the loop that the handler starts
  ends, and it has called \<open>fetchPage\<close> at most \<open>maxPages\<close> times (not at all when
  \<open>maxPages\<close> is negative).
\<close>

theorem paginate_finite_budget:
  assumes "maxPages \<le> 2 ^ 53"
  shows "\<exists>st'. paginate feed parseDate nlTime (Finite maxPages) (initialLoop url params) = Some st'
           \<and> int (fetches st') \<le> max 0 maxPages"
proof -
  have "0 \<le> pageCount (initialLoop url params)" by (simp add: initialLoop_def)
  from paginate_fetches [OF this assms, of feed parseDate nlTime]
  show ?thesis by (simp add: initialLoop_def)
qed

theorem paginate_finite_budget_witness:
  "(3 :: int) \<le> 2 ^ 53
   \<and> map_option fetches
       (paginate endlessFeed (\<lambda>s. Some 5000) 1000 (Finite 3) (initialLoop ''u'' [])) = Some 3
   \<and> (\<exists>st'. paginate endlessFeed (\<lambda>s. Some 5000) 1000 (Finite 3) (initialLoop ''u'' []) = Some st'
         \<and> int (fetches st') \<le> max 0 3)"
proof -
  have le: "(3 :: int) \<le> 2 ^ 53" by simp
  have ex: "\<exists>st'. paginate endlessFeed (\<lambda>s. Some 5000) 1000 (Finite 3) (initialLoop ''u'' [])
        = Some st' \<and> int (fetches st') \<le> max 0 3"
    by (rule paginate_finite_budget [OF le])
  have v: "map_option fetches
       (paginate endlessFeed (\<lambda>s. Some 5000) 1000 (Finite 3) (initialLoop ''u'' [])) = Some 3"
    by (simp add: endless_three)
  from le v ex show ?thesis by blast
qed

text \<open>
  C5, the claim as stated fails: a request whose \<open>maxPages\<close> is a numeral of 310 digits
  gives the loop the budget \<open>Infinity\<close>; with a feed whose every page holds a flight to
  come and names a next page the loop never ends, and the handler never answers.
\<close>

theorem paginate_infinite_budget_counterexample:
  "maxPagesOf (jsParseInt infinitePlatform (Some longNumeral)) = PosInfinity
   \<and> paginate endlessFeed (\<lambda>s. Some 5000) 1000 PosInfinity
         (initialLoop ''https://api.schiphol.nl/public-flights/flights'' []) = None
   \<and> handler infinitePlatform lateEnv [(''maxPages'', longNumeral)] (sampleState [] None 0)
       = None"
  by (simp add: handler_def tryBlock_def infinitePlatform_def samplePlatform_def lateEnv_def
      sampleState_def Let_def isFlightCacheValid_def maxPagesOf_def paginate_endless step_def)

subsection \<open>The response cache\<close>

lemma sweep_subset: "set (sweep E k c) \<subseteq> set c"
proof (induction c arbitrary: k)
  case Nil
  then show ?case by simp
next
  case (Cons a c)
  obtain key v where a: "a = (key, v)" by (cases a)
  from Cons.IH [of "Suc k"] a show ?case by auto
qed

lemma sweep_distinct: "distinct (map fst c) \<Longrightarrow> distinct (map fst (sweep E k c))"
proof (induction c arbitrary: k)
  case Nil
  then show ?case by simp
next
  case (Cons a c)
  obtain key v where a: "a = (key, v)" by (cases a)
  have "fst ` set (sweep E (Suc k) c) \<subseteq> fst ` set c"
    using sweep_subset [of E "Suc k" c] by auto
  with Cons a show ?case by auto
qed

lemma map_of_sweep_absent:
  "key \<notin> fst ` set c \<Longrightarrow> map_of (sweep E k c) key = None"
  using sweep_subset [of E k c] by (auto simp: map_of_eq_None_iff)

lemma map_of_sweep_valid:
  "map_of c key = Some e \<Longrightarrow>
   (\<And>j. k \<le> j \<Longrightarrow> j < k + length c \<Longrightarrow> isFlightCacheValid (clock E j) (Some e)) \<Longrightarrow>
   map_of (sweep E k c) key = Some e"
proof (induction c arbitrary: k)
  case Nil
  then show ?case by simp
next
  case (Cons a c)
  obtain key' v where a: "a = (key', v)" by (cases a)
  show ?case
  proof (cases "key' = key")
    case True
    with Cons.prems(1) a have "v = e" by simp
    with True a Cons.prems(2) [of k] show ?thesis by simp
  next
    case False
    with Cons.prems(1) a have "map_of c key = Some e" by simp
    then have "map_of (sweep E (Suc k) c) key = Some e"
      by (rule Cons.IH) (simp add: Cons.prems(2))
    with False a show ?thesis by simp
  qed
qed

lemma map_of_sweep_expired:
  "distinct (map fst c) \<Longrightarrow> map_of c key = Some e \<Longrightarrow>
   (\<And>j. k \<le> j \<Longrightarrow> j < k + length c \<Longrightarrow> \<not> isFlightCacheValid (clock E j) (Some e)) \<Longrightarrow>
   map_of (sweep E k c) key = None"
proof (induction c arbitrary: k)
  case Nil
  then show ?case by simp
next
  case (Cons a c)
  obtain key' v where a: "a = (key', v)" by (cases a)
  show ?case
  proof (cases "key' = key")
    case True
    with Cons.prems(2) a have v: "v = e" by simp
    from Cons.prems(1) a True have "key \<notin> fst ` set c" by auto
    then have "map_of (sweep E (Suc k) c) key = None" by (rule map_of_sweep_absent)
    with True a v Cons.prems(3) [of k] show ?thesis by simp
  next
    case False
    with Cons.prems(2) a have m: "map_of c key = Some e" by simp
    from Cons.prems(1) have "distinct (map fst c)" by simp
    then have "map_of (sweep E (Suc k) c) key = None"
      using m by (rule Cons.IH) (simp add: Cons.prems(3))
    with False a show ?thesis by simp
  qed
qed

lemma storeResponse_cache:
  "flightDataCache (storeResponse E cacheKey response s)
     = sweep E (Suc (tick s))
         (AList.update cacheKey \<lparr>data = response, timestamp = clock E (tick s)\<rparr>
            (flightDataCache s))"
  by (simp add: storeResponse_def Let_def step_def)

lemma storeResponse_distinct:
  "distinct (map fst (flightDataCache s)) \<Longrightarrow>
   distinct (map fst (flightDataCache (storeResponse E cacheKey response s)))"
  by (simp add: storeResponse_cache sweep_distinct distinct_update)

lemma length_update_le: "length (AList.update k v al) \<le> Suc (length al)"
  by (induction al) auto

text \<open>
  C6. A response written under a key (at a clock reading that is not 0) and read back
  while the clock stays within 15 minutes of the write is the stored entry, data
  unchanged, and it is valid. Once 15 minutes have elapsed \<open>isFlightCacheValid\<close> is false
  on the entry, and the clean-up after the next write removes it: the key is absent
  afterwards when the write was to another key, and holds the new entry otherwise. The
  clock readings concerned are the one of the write, at index \<open>tick s\<close>, and those of the
  clean-up, one for each entry.
\<close>

theorem response_cache_roundtrip:
  "(clock E (tick s) \<noteq> 0
      \<and> (\<forall>j. tick s < j \<and> j \<le> tick s + Suc (length (flightDataCache s)) \<longrightarrow>
            clock E j - clock E (tick s) < FLIGHT_CACHE_DURATION) \<longrightarrow>
      map_of (flightDataCache (storeResponse E key d s)) key
        = Some \<lparr>data = d, timestamp = clock E (tick s)\<rparr>
      \<and> (\<forall>now. now - clock E (tick s) < FLIGHT_CACHE_DURATION \<longrightarrow>
            isFlightCacheValid now (map_of (flightDataCache (storeResponse E key d s)) key)))
   \<and> (\<forall>now t. FLIGHT_CACHE_DURATION \<le> now - t \<longrightarrow>
         \<not> isFlightCacheValid now (Some \<lparr>data = d, timestamp = t\<rparr>))
   \<and> (distinct (map fst (flightDataCache s)) \<and> map_of (flightDataCache s) key = Some old
      \<and> (\<forall>j. tick s \<le> j \<and> j \<le> tick s + Suc (length (flightDataCache s)) \<longrightarrow>
            FLIGHT_CACHE_DURATION \<le> clock E j - timestamp old) \<longrightarrow>
      map_of (flightDataCache (storeResponse E key' d' s)) key \<noteq> Some old
      \<and> (key' \<noteq> key \<longrightarrow> map_of (flightDataCache (storeResponse E key' d' s)) key = None))
   \<and> FLIGHT_CACHE_DURATION = 15 * 60 * 1000"
proof (intro conjI impI allI)
  let ?e = "\<lparr>data = d, timestamp = clock E (tick s)\<rparr>"
  let ?c = "AList.update key ?e (flightDataCache s)"
  assume h: "clock E (tick s) \<noteq> 0
      \<and> (\<forall>j. tick s < j \<and> j \<le> tick s + Suc (length (flightDataCache s)) \<longrightarrow>
            clock E j - clock E (tick s) < FLIGHT_CACHE_DURATION)"
  have len: "length ?c \<le> Suc (length (flightDataCache s))" by (rule length_update_le)
  have valid: "isFlightCacheValid (clock E j) (Some ?e)"
    if "Suc (tick s) \<le> j" and "j < Suc (tick s) + length ?c" for j
  proof -
    from that len have "tick s < j \<and> j \<le> tick s + Suc (length (flightDataCache s))" by simp
    with h have "clock E j - clock E (tick s) < FLIGHT_CACHE_DURATION" by blast
    with h show ?thesis by (simp add: isFlightCacheValid_def)
  qed
  have "map_of ?c key = Some ?e"
    by (simp add: update_conv)
  then have "map_of (sweep E (Suc (tick s)) ?c) key = Some ?e"
    using valid by (rule map_of_sweep_valid)
  then show got: "map_of (flightDataCache (storeResponse E key d s)) key = Some ?e"
    by (simp add: storeResponse_cache)
  fix now
  assume "now - clock E (tick s) < FLIGHT_CACHE_DURATION"
  with h show "isFlightCacheValid now (map_of (flightDataCache (storeResponse E key d s)) key)"
    by (simp add: got isFlightCacheValid_def)
next
  fix now t
  assume "FLIGHT_CACHE_DURATION \<le> now - t"
  then show "\<not> isFlightCacheValid now (Some \<lparr>data = d, timestamp = t\<rparr>)"
    by (simp add: isFlightCacheValid_def)
next
  assume h: "distinct (map fst (flightDataCache s)) \<and> map_of (flightDataCache s) key = Some old
      \<and> (\<forall>j. tick s \<le> j \<and> j \<le> tick s + Suc (length (flightDataCache s)) \<longrightarrow>
            FLIGHT_CACHE_DURATION \<le> clock E j - timestamp old)"
  let ?e' = "\<lparr>data = d', timestamp = clock E (tick s)\<rparr>"
  let ?c = "AList.update key' ?e' (flightDataCache s)"
  have dur: "0 < FLIGHT_CACHE_DURATION" by (simp add: FLIGHT_CACHE_DURATION_def)
  have dist: "distinct (map fst ?c)" using h by (simp add: distinct_update)
  have len: "length ?c \<le> Suc (length (flightDataCache s))" by (rule length_update_le)
  have expired: "\<not> isFlightCacheValid (clock E j) (Some old)"
    if "Suc (tick s) \<le> j" and "j < Suc (tick s) + length ?c" for j
  proof -
    from that len have "tick s \<le> j \<and> j \<le> tick s + Suc (length (flightDataCache s))" by simp
    with h have "FLIGHT_CACHE_DURATION \<le> clock E j - timestamp old" by blast
    then show ?thesis by (simp add: isFlightCacheValid_def)
  qed
  have other: "map_of (sweep E (Suc (tick s)) ?c) key = None" if "key' \<noteq> key"
  proof -
    from that h have "map_of ?c key = Some old" by (simp add: update_conv)
    with dist show ?thesis using expired by (rule map_of_sweep_expired)
  qed
  then show "key' \<noteq> key \<Longrightarrow> map_of (flightDataCache (storeResponse E key' d' s)) key = None"
    by (simp add: storeResponse_cache)
  show "map_of (flightDataCache (storeResponse E key' d' s)) key \<noteq> Some old"
  proof (cases "key' = key")
    case False
    with other show ?thesis by (simp add: storeResponse_cache)
  next
    case True
    from h have "FLIGHT_CACHE_DURATION \<le> clock E (tick s) - timestamp old" by simp
    with dur have ne: "?e' \<noteq> old" by auto
    have "(key, old) \<notin> set ?c"
    proof
      assume "(key, old) \<in> set ?c"
      with dist have "map_of ?c key = Some old" by simp
      with True ne show False by (simp add: update_conv)
    qed
    then have "(key, old) \<notin> set (sweep E (Suc (tick s)) ?c)"
      using sweep_subset [of E "Suc (tick s)" ?c] by auto
    then have "map_of (sweep E (Suc (tick s)) ?c) key \<noteq> Some old"
      by (auto dest: map_of_SomeD)
    then show ?thesis by (simp add: storeResponse_cache)
  qed
next
  show "FLIGHT_CACHE_DURATION = 15 * 60 * 1000" by (simp add: FLIGHT_CACHE_DURATION_def)
qed

theorem response_cache_roundtrip_witness:
  "map_of (flightDataCache
      (storeResponse sampleEnv ''2024-03-20_all'' (JStr ''payload'') (sampleState [] None 0)))
      ''2024-03-20_all''
     = Some \<lparr>data = JStr ''payload'', timestamp = 1000\<rparr>
   \<and> isFlightCacheValid 2000 (map_of (flightDataCache
      (storeResponse sampleEnv ''2024-03-20_all'' (JStr ''payload'') (sampleState [] None 0)))
      ''2024-03-20_all'')
   \<and> \<not> isFlightCacheValid 901000 (Some \<lparr>data = JStr ''payload'', timestamp = 1000\<rparr>)
   \<and> map_of (flightDataCache (storeResponse lateEnv ''2024-03-21_all'' JNull staleState))
       ''2024-03-20_all'' = None"
proof -
  let ?s = "sampleState [] None 0"
  have t: "clock sampleEnv (tick ?s) = 1000"
    by (simp add: sampleEnv_def sampleState_def)
  have fresh: "\<forall>j. tick ?s < j \<and> j \<le> tick ?s + Suc (length (flightDataCache ?s)) \<longrightarrow>
      clock sampleEnv j - clock sampleEnv (tick ?s) < FLIGHT_CACHE_DURATION"
    by (auto simp: sampleEnv_def sampleState_def FLIGHT_CACHE_DURATION_def min_def)
  have stale: "distinct (map fst (flightDataCache staleState))
      \<and> map_of (flightDataCache staleState) ''2024-03-20_all''
        = Some \<lparr>data = JStr ''payload'', timestamp = 1000\<rparr>
      \<and> (\<forall>j. tick staleState \<le> j
              \<and> j \<le> tick staleState + Suc (length (flightDataCache staleState)) \<longrightarrow>
            FLIGHT_CACHE_DURATION
              \<le> clock lateEnv j - timestamp \<lparr>data = JStr ''payload'', timestamp = 1000\<rparr>)"
    by (simp add: staleState_def lateEnv_def FLIGHT_CACHE_DURATION_def)
  have dur: "FLIGHT_CACHE_DURATION \<le> 901000 - 1000"
    by (simp add: FLIGHT_CACHE_DURATION_def)
  have now: "2000 - clock sampleEnv (tick ?s) < FLIGHT_CACHE_DURATION"
    by (simp add: t FLIGHT_CACHE_DURATION_def)
  note R = response_cache_roundtrip [of sampleEnv ?s "''2024-03-20_all''" "JStr ''payload''"]
  have hyp: "clock sampleEnv (tick ?s) \<noteq> 0
      \<and> (\<forall>j. tick ?s < j \<and> j \<le> tick ?s + Suc (length (flightDataCache ?s)) \<longrightarrow>
            clock sampleEnv j - clock sampleEnv (tick ?s) < FLIGHT_CACHE_DURATION)"
    using t fresh by simp
  note R1 = R [THEN conjunct1, THEN mp, OF hyp]
  have a: "map_of (flightDataCache (storeResponse sampleEnv ''2024-03-20_all'' (JStr ''payload'') ?s))
      ''2024-03-20_all'' = Some \<lparr>data = JStr ''payload'', timestamp = 1000\<rparr>"
    using R1 [THEN conjunct1] by (simp only: t)
  have b: "isFlightCacheValid 2000 (map_of (flightDataCache
      (storeResponse sampleEnv ''2024-03-20_all'' (JStr ''payload'') ?s)) ''2024-03-20_all'')"
    using R1 [THEN conjunct2, rule_format, OF now] .
  have c: "\<not> isFlightCacheValid 901000 (Some \<lparr>data = JStr ''payload'', timestamp = 1000\<rparr>)"
    using R [THEN conjunct2, THEN conjunct1, rule_format, OF dur] .
  note S = response_cache_roundtrip [of lateEnv staleState "''2024-03-20_all''" _
      "\<lparr>data = JStr ''payload'', timestamp = 1000\<rparr>" "''2024-03-21_all''" JNull]
  have d: "map_of (flightDataCache (storeResponse lateEnv ''2024-03-21_all'' JNull staleState))
       ''2024-03-20_all'' = None"
    using S [THEN conjunct2, THEN conjunct2, THEN conjunct1, THEN mp, OF stale, THEN conjunct2]
    by simp
  from a b c d show ?thesis by blast
qed

subsection \<open>Failure responses\<close>

lemma cachedResponse_status [simp]: "statusCode (fst (cachedResponse E c s)) = 200"
  by (simp add: cachedResponse_def Let_def)

lemma with_field_object [simp]: "is_object (with_field j k v)"
  by (cases j) simp_all

lemma tryBlock_failure:
  "tryBlock P E timeWindow maxPages cacheKey apiParams s = Some (r, s') \<Longrightarrow>
   statusCode r = 500 \<Longrightarrow> field (body r) ''flights'' = Some (JArr [])"
  by (auto simp: tryBlock_def Let_def split: option.splits prod.splits sum.splits)

lemma tryBlock_object:
  "tryBlock P E timeWindow maxPages cacheKey apiParams s = Some (r, s') \<Longrightarrow> is_object (body r)"
  by (auto simp: tryBlock_def responseJson_def Let_def split: option.splits prod.splits sum.splits)

lemma handler_configured:
  assumes "truthy (SCHIPHOL_APP_ID P)" and "truthy (SCHIPHOL_APP_KEY P)"
    and "handler P E q s = Some (r, s')" and "statusCode r = 500"
  shows "field (body r) ''flights'' = Some (JArr [])"
proof -
  let ?now = "clock E (tick s)"
  let ?key = "getFlightCacheKey (jsStringify P) (todayDate P) (map_of q ''timeWindow'')
      (filter (\<lambda>(key, v). key \<notin> {''timeWindow'', ''maxPages'', ''useDateTimeRange''}) q)"
  show ?thesis
  proof (cases "isFlightCacheValid ?now (map_of (flightDataCache s) ?key)")
    case True
    with assms(1-3) have "r = fst (cachedResponse E (the (map_of (flightDataCache s) ?key)) (step s))"
      by (simp add: handler_def Let_def split: prod.splits)
    with assms(4) show ?thesis by simp
  next
    case False
    with assms(1-3) obtain mp ap where "tryBlock P E (map_of q ''timeWindow'') mp ?key ap (step s) = Some (r, s')"
      by (simp add: handler_def Let_def)
    from tryBlock_failure [OF this assms(4)] show ?thesis .
  qed
qed

lemma handler_object:
  assumes "handler P E q s = Some (r, s')"
  shows "is_object (body r)"
proof (cases "\<not> truthy (SCHIPHOL_APP_ID P) \<or> \<not> truthy (SCHIPHOL_APP_KEY P)")
  case True
  with assms have "r = \<lparr>statusCode = 500, headers = [],
               body = JObj [(''message'', JStr ''Server configuration error.'')]\<rparr>"
    by (auto simp: handler_def)
  then show ?thesis by simp
next
  case creds: False
  let ?now = "clock E (tick s)"
  let ?key = "getFlightCacheKey (jsStringify P) (todayDate P) (map_of q ''timeWindow'')
      (filter (\<lambda>(key, v). key \<notin> {''timeWindow'', ''maxPages'', ''useDateTimeRange''}) q)"
  show ?thesis
  proof (cases "isFlightCacheValid ?now (map_of (flightDataCache s) ?key)")
    case True
    with assms creds have "r = fst (cachedResponse E (the (map_of (flightDataCache s) ?key)) (step s))"
      by (simp add: handler_def Let_def split: prod.splits)
    then show ?thesis by (simp add: cachedResponse_def Let_def)
  next
    case False
    with assms creds obtain mp ap where "tryBlock P E (map_of q ''timeWindow'') mp ?key ap (step s) = Some (r, s')"
      by (simp add: handler_def Let_def)
    from tryBlock_object [OF this] show ?thesis .
  qed
qed

text \<open>
  C1 (as amended), for the Schiphol function. The body of a response is the JSON value
  that the handler serialises, always an object. When the credentials are present,
  every 500 response comes from the \<open>catch\<close> block and its body has the key \<open>flights\<close>
  with the empty array. When a credential is absent, the handler answers 500 with the
  body \<open>{message: "Server configuration error."}\<close>, an object without a \<open>flights\<close> key,
  and leaves the state as it was.
\<close>

theorem failure_bodies:
  "(truthy (SCHIPHOL_APP_ID P) \<and> truthy (SCHIPHOL_APP_KEY P)
      \<and> handler P E q s = Some (r, s') \<and> statusCode r = 500 \<longrightarrow>
      field (body r) ''flights'' = Some (JArr []))
   \<and> (\<not> truthy (SCHIPHOL_APP_ID P) \<or> \<not> truthy (SCHIPHOL_APP_KEY P) \<longrightarrow>
      handler P E q s
        = Some (\<lparr>statusCode = 500, headers = [],
                 body = JObj [(''message'', JStr ''Server configuration error.'')]\<rparr>, s))
   \<and> (handler P E q s = Some (r, s') \<longrightarrow> is_object (body r))"
proof (intro conjI impI)
  assume "truthy (SCHIPHOL_APP_ID P) \<and> truthy (SCHIPHOL_APP_KEY P)
      \<and> handler P E q s = Some (r, s') \<and> statusCode r = 500"
  then show "field (body r) ''flights'' = Some (JArr [])"
    using handler_configured by blast
next
  assume "\<not> truthy (SCHIPHOL_APP_ID P) \<or> \<not> truthy (SCHIPHOL_APP_KEY P)"
  then show "handler P E q s
        = Some (\<lparr>statusCode = 500, headers = [],
                 body = JObj [(''message'', JStr ''Server configuration error.'')]\<rparr>, s)"
    by (auto simp: handler_def)
next
  assume "handler P E q s = Some (r, s')"
  then show "is_object (body r)" by (rule handler_object)
qed

lemma badCountry_pages:
  "paginate (upstream badCountryEnv) (\<lambda>s. Some 5000) 1000 (Finite 200) (initialLoop url params)
   = Some \<lparr>allFlights = [\<lparr>scheduleDate = Some ''2024-03-20'', scheduleTime = Some ''14:30:00'',
                    destination0 = Some ''Paris (CDG)'', cityInfo = None\<rparr>],
           pageCount = 0, totalFlightsSeen = 1, currentUrl = Some url,
           currentParams = Some params, hasMore = False, pastFlightPagesCount = 0,
           fetches = 1\<rparr>"
  by (subst paginate.simps)
    (simp add: loopBody_def fetchPage_def badCountryEnv_def initialLoop_def
      isFlightInFuture_def Let_def MAX_PAST_PAGES_def)

lemma badCountry_enrich:
  "fst (processFlightData badCountryEnv
          [\<lparr>scheduleDate = Some ''2024-03-20'', scheduleTime = Some ''14:30:00'',
            destination0 = Some ''Paris (CDG)'', cityInfo = None\<rparr>]
          (step (sampleState [] None 0)))
   = Inl (RangeError ''Invalid code point NaN'')"
  by code_simp

lemma sample_run:
  "\<exists>s'. handler (samplePlatform (Some ''id'')) badCountryEnv [] (sampleState [] None 0)
   = Some (\<lparr>statusCode = 500, headers = [],
      body = JObj [(''message'', JStr ''Internal Server Error.''),
                   (''error'', JStr ''Invalid code point NaN''),
                   (''flights'', JArr [])]\<rparr>, s')"
proof -
  obtain s2 where "processFlightData badCountryEnv
          [\<lparr>scheduleDate = Some ''2024-03-20'', scheduleTime = Some ''14:30:00'',
            destination0 = Some ''Paris (CDG)'', cityInfo = None\<rparr>]
          (step (sampleState [] None 0)) = (Inl (RangeError ''Invalid code point NaN''), s2)"
    using badCountry_enrich by (metis prod.collapse)
  then show ?thesis
    by (simp add: handler_def tryBlock_def samplePlatform_def Let_def maxPagesOf_def
        isFlightCacheValid_def sampleState_def badCountry_pages step_def)
qed

text \<open>
  C1, the claim as stated fails: without credentials the Schiphol handler answers 500
  with a body that has no \<open>flights\<close> key.
\<close>

theorem missing_credentials_counterexample:
  "handler (samplePlatform None) badCountryEnv [] (sampleState [] None 0)
     = Some (\<lparr>statusCode = 500, headers = [],
              body = JObj [(''message'', JStr ''Server configuration error.'')]\<rparr>,
             sampleState [] None 0)
   \<and> field (JObj [(''message'', JStr ''Server configuration error.'')]) ''flights'' = None"
  by (simp add: handler_def samplePlatform_def)

theorem failure_bodies_witness:
  "(\<exists>s'. handler (samplePlatform (Some ''id'')) badCountryEnv [] (sampleState [] None 0)
      = Some (\<lparr>statusCode = 500, headers = [],
               body = JObj [(''message'', JStr ''Internal Server Error.''),
                            (''error'', JStr ''Invalid code point NaN''),
                            (''flights'', JArr [])]\<rparr>, s'))
   \<and> field (JObj [(''message'', JStr ''Internal Server Error.''),
                  (''error'', JStr ''Invalid code point NaN''),
                  (''flights'', JArr [])]) ''flights'' = Some (JArr [])
   \<and> is_object (JObj [(''message'', JStr ''Internal Server Error.''),
                      (''error'', JStr ''Invalid code point NaN''),
                      (''flights'', JArr [])])
   \<and> handler (samplePlatform None) badCountryEnv [] (sampleState [] None 0)
       = Some (\<lparr>statusCode = 500, headers = [],
                body = JObj [(''message'', JStr ''Server configuration error.'')]\<rparr>,
               sampleState [] None 0)"
proof -
  let ?P = "samplePlatform (Some ''id'')"
  let ?N = "samplePlatform None"
  let ?r = "\<lparr>statusCode = 500, headers = [],
               body = JObj [(''message'', JStr ''Internal Server Error.''),
                            (''error'', JStr ''Invalid code point NaN''),
                            (''flights'', JArr [])]\<rparr>"
  from sample_run obtain s' where
    run: "handler ?P badCountryEnv [] (sampleState [] None 0) = Some (?r, s')" by blast
  have keys: "truthy (SCHIPHOL_APP_ID ?P)" "truthy (SCHIPHOL_APP_KEY ?P)"
    by (simp_all add: samplePlatform_def)
  have nokeys: "\<not> truthy (SCHIPHOL_APP_ID ?N)"
    by (simp add: samplePlatform_def)
  note F = failure_bodies [of ?P badCountryEnv "[]" "sampleState [] None 0" ?r s']
  note G = failure_bodies [of ?N badCountryEnv "[]" "sampleState [] None 0" ?r s']
  have st: "statusCode ?r = 500" by simp
  from F keys run st have d: "field (body ?r) ''flights'' = Some (JArr [])"
    by blast
  from G nokeys have f: "handler ?N badCountryEnv [] (sampleState [] None 0)
       = Some (\<lparr>statusCode = 500, headers = [],
          body = JObj [(''message'', JStr ''Server configuration error.'')]\<rparr>,
          sampleState [] None 0)"
    by blast
  from F run have "is_object (body ?r)"
    by blast
  with run d f show ?thesis by auto
qed

end
